theory Spec2Isabelle
  imports Complex_Main "HOL-Library.Char_ord" "HOL-Library.List_Lexorder" "HOL-Library.Word"
begin

section \<open>Practice-level prescribing metrics (analyze.py)\<close>

text \<open>
  The embedding follows \<^verbatim>\<open>compute_metrics\<close> of \<^verbatim>\<open>src/src/analyze.py\<close> statement by
  statement. Conventions:
  \<^item> a float is a \<open>pyfloat\<close>: either \<open>NaN\<close> (the "undefined" sentinel of the source,
    \<^verbatim>\<open>np.nan\<close>) or a finite value \<open>Fin x\<close> with \<open>x\<close> a real number. Rounding and the
    infinities of IEEE arithmetic are outside the model; arithmetic on finite values is
    exact.
  \<^item> a cell of the input table is missing (\<^verbatim>\<open>NaN\<close>/\<^verbatim>\<open>None\<close>), an integer, a float, or a
    value that \<^verbatim>\<open>pd.to_numeric\<close> cannot parse. A column of integers only is an \<^verbatim>\<open>int64\<close>
    column: its values are 64-bit words and its sums wrap around, as they do in pandas.
    Any other column is a \<^verbatim>\<open>float64\<close> column after the coercion.
  \<^item> the input frame carries the labels of the columns it has; a field of an observation
    is read only after the source has looked its label up, and a missing label raises
    as it does in pandas.
\<close>

subsection \<open>Floats with the undefined sentinel\<close>

datatype pyfloat = NaN | Fin real

fun isnan :: "pyfloat \<Rightarrow> bool" where
  "isnan NaN = True"
| "isnan (Fin x) = False"

text \<open>Arithmetic propagates \<open>NaN\<close>; comparisons with \<open>NaN\<close> are false.\<close>

fun fadd :: "pyfloat \<Rightarrow> pyfloat \<Rightarrow> pyfloat" where
  "fadd (Fin a) (Fin b) = Fin (a + b)"
| "fadd _ _ = NaN"

fun fsub :: "pyfloat \<Rightarrow> pyfloat \<Rightarrow> pyfloat" where
  "fsub (Fin a) (Fin b) = Fin (a - b)"
| "fsub _ _ = NaN"

fun fmul :: "pyfloat \<Rightarrow> pyfloat \<Rightarrow> pyfloat" where
  "fmul (Fin a) (Fin b) = Fin (a * b)"
| "fmul _ _ = NaN"

fun fgt :: "pyfloat \<Rightarrow> pyfloat \<Rightarrow> bool" where
  "fgt (Fin a) (Fin b) = (a > b)"
| "fgt _ _ = False"

fun flt :: "pyfloat \<Rightarrow> pyfloat \<Rightarrow> bool" where
  "flt (Fin a) (Fin b) = (a < b)"
| "flt _ _ = False"

text \<open>\<^verbatim>\<open>np.sqrt\<close>: a negative argument gives \<^verbatim>\<open>nan\<close> (with a warning), it does not raise.\<close>

fun np_sqrt :: "pyfloat \<Rightarrow> pyfloat" where
  "np_sqrt NaN = NaN"
| "np_sqrt (Fin x) = (if x < 0 then NaN else Fin (sqrt x))"

text \<open>\<^verbatim>\<open>Series.mean(skipna=True)\<close>: the mean of the values that are not \<^verbatim>\<open>nan\<close>, and
  \<^verbatim>\<open>nan\<close> when there is none.\<close>

fun defined_values :: "pyfloat list \<Rightarrow> real list" where
  "defined_values [] = []"
| "defined_values (NaN # xs) = defined_values xs"
| "defined_values (Fin x # xs) = x # defined_values xs"

definition mean_skipna :: "pyfloat list \<Rightarrow> pyfloat" where
  "mean_skipna xs =
     (let ds = defined_values xs
      in if ds = [] then NaN else Fin (sum_list ds / real (length ds)))"

subsection \<open>The input table\<close>

text \<open>
  An integer cell is an \<^verbatim>\<open>int64\<close> value, or a Python int or an integer string of an
  object column, which \<^verbatim>\<open>pd.to_numeric\<close> reads as \<^verbatim>\<open>int64\<close>; a float cell is a \<^verbatim>\<open>float64\<close>
  value or a string with a decimal point.
\<close>

datatype cell = Missing | IntNum "64 word" | FloatNum real | NonNumeric

record observation =
  practice_code :: "string option"
  month :: string
  items :: cell
  list_size :: cell

record dataframe =
  df_columns :: "string list"
  df_rows :: "observation list"

text \<open>\<^verbatim>\<open>df.empty\<close>: true when either axis has length 0.\<close>

definition df_empty :: "dataframe \<Rightarrow> bool" where
  "df_empty df = (df_columns df = [] \<or> df_rows df = [])"

subsection \<open>Cleaning (lines 46-51)\<close>

text \<open>\<^verbatim>\<open>df.dropna(subset=["items"])\<close>\<close>

definition dropna_items :: "observation list \<Rightarrow> observation list" where
  "dropna_items rs = filter (\<lambda>r. items r \<noteq> Missing) rs"

text \<open>
  \<^verbatim>\<open>.fillna(0)\<close> on the \<^verbatim>\<open>list_size\<close> column: a missing cell becomes 0. (In a column that
  holds floats the 0 is stored as 0.0; its float reading below is the same.)
\<close>

fun fillna_cell :: "cell \<Rightarrow> cell" where
  "fillna_cell Missing = IntNum 0"
| "fillna_cell c = c"

definition items_column :: "observation list \<Rightarrow> cell list" where
  "items_column rs = map items rs"

definition list_size_column :: "observation list \<Rightarrow> cell list" where
  "list_size_column rs = map (\<lambda>r. fillna_cell (list_size r)) rs"

text \<open>
  \<^verbatim>\<open>pd.to_numeric(..., errors="coerce")\<close> and the \<^verbatim>\<open>.fillna(0)\<close> after it. \<open>to_numeric\<close>
  is the float reading of a cell, where a value without a numeric reading becomes
  \<^verbatim>\<open>NaN\<close>, which \<open>fillna0\<close> turns into 0; \<open>int64_value\<close> is the value of a cell of an
  \<^verbatim>\<open>int64\<close> column, whose cells are all integers.
\<close>

fun is_int_cell :: "cell \<Rightarrow> bool" where
  "is_int_cell (IntNum w) = True"
| "is_int_cell _ = False"

definition int64_column :: "cell list \<Rightarrow> bool" where
  "int64_column cs = list_all is_int_cell cs"

fun int64_value :: "cell \<Rightarrow> 64 word" where
  "int64_value (IntNum w) = w"
| "int64_value _ = 0"

fun to_numeric :: "cell \<Rightarrow> pyfloat" where
  "to_numeric (IntNum w) = Fin (real_of_int (sint w))"
| "to_numeric (FloatNum x) = Fin x"
| "to_numeric NonNumeric = NaN"
| "to_numeric Missing = NaN"

fun fillna0 :: "pyfloat \<Rightarrow> real" where
  "fillna0 NaN = 0"
| "fillna0 (Fin x) = x"

subsection \<open>Aggregation by practice (lines 53-57)\<close>

record entity_total =
  code :: string
  total_items :: real
  total_list_size :: real

text \<open>\<^verbatim>\<open>groupby("practice_code")\<close> with its defaults: rows whose key is missing are left
  out (\<^verbatim>\<open>dropna=True\<close>), groups come in ascending key order (\<^verbatim>\<open>sort=True\<close>).\<close>

definition group_keys :: "observation list \<Rightarrow> string list" where
  "group_keys rs = sort (remdups (List.map_filter practice_code rs))"

definition group_rows :: "observation list \<Rightarrow> string \<Rightarrow> observation list" where
  "group_rows rs k = filter (\<lambda>r. practice_code r = Some k) rs"

text \<open>
  The aggregation \<^verbatim>\<open>"sum"\<close> over the cells of one group. In an \<^verbatim>\<open>int64\<close> column the sum is
  an \<^verbatim>\<open>int64\<close>: the addition of 64-bit words, which wraps around without an error, read as
  a signed number. In a \<^verbatim>\<open>float64\<close> column it is the sum of the float readings.
\<close>

definition column_sum :: "bool \<Rightarrow> cell list \<Rightarrow> real" where
  "column_sum int64 cs =
     (if int64 then real_of_int (sint (sum_list (map int64_value cs)))
      else sum_list (map (\<lambda>c. fillna0 (to_numeric c)) cs))"

text \<open>
  The dtype of the two numeric columns. pandas stores a column of integers only as
  \<^verbatim>\<open>int64\<close> and a numeric column with a missing value or a float as \<^verbatim>\<open>float64\<close>;
  \<^verbatim>\<open>dropna\<close>, \<^verbatim>\<open>fillna(0)\<close> and \<^verbatim>\<open>pd.to_numeric\<close> keep both dtypes, and an object
  column with a value that cannot be parsed is \<^verbatim>\<open>float64\<close> after the coercion. So a
  column is summed as \<^verbatim>\<open>int64\<close> exactly when every cell of the column of the frame, as
  it is passed in, is an integer.
\<close>

definition items_int64 :: "observation list \<Rightarrow> bool" where
  "items_int64 rs = int64_column (map items rs)"

definition list_size_int64 :: "observation list \<Rightarrow> bool" where
  "list_size_int64 rs = int64_column (map list_size rs)"

text \<open>
  \<^verbatim>\<open>groupby("practice_code").agg(...)\<close> on the cleaned rows; the first two arguments say
  whether the \<^verbatim>\<open>items\<close> and the \<^verbatim>\<open>list_size\<close> column are \<^verbatim>\<open>int64\<close> columns.
\<close>

definition groupby_agg :: "bool \<Rightarrow> bool \<Rightarrow> observation list \<Rightarrow> entity_total list" where
  "groupby_agg items_int list_size_int rs =
     map (\<lambda>k. \<lparr>code = k,
               total_items = column_sum items_int (items_column (group_rows rs k)),
               total_list_size = column_sum list_size_int (list_size_column (group_rows rs k))\<rparr>)
         (group_keys rs)"

definition aggregate :: "observation list \<Rightarrow> entity_total list" where
  "aggregate rs = groupby_agg (items_int64 rs) (list_size_int64 rs) (dropna_items rs)"

subsection \<open>Rates, control limits and classification (lines 58-104)\<close>

record metrics_row = entity_total +
  rate_per_1000 :: pyfloat
  mean_rate :: pyfloat
  ucl95 :: pyfloat
  lcl95 :: pyfloat
  ucl998 :: pyfloat
  lcl998 :: pyfloat
  outlier :: string

text \<open>\<^verbatim>\<open>np.where(total_list_size > 0, total_items / total_list_size * 1000.0, np.nan)\<close>\<close>

definition rate_of :: "entity_total \<Rightarrow> pyfloat" where
  "rate_of g =
     (if total_list_size g > 0 then Fin (total_items g / total_list_size g * 1000)
      else NaN)"

definition overall_mean_rate :: "entity_total list \<Rightarrow> pyfloat" where
  "overall_mean_rate gs = mean_skipna (map rate_of gs)"

text \<open>The closure \<^verbatim>\<open>limits(size, z)\<close>; the captured \<^verbatim>\<open>mean_rate\<close> is the first argument.
  Past the guard the mean is finite and the size positive, so the quotient is finite.\<close>

definition limits :: "pyfloat \<Rightarrow> real \<Rightarrow> real \<Rightarrow> pyfloat \<times> pyfloat" where
  "limits mean sz z =
     (if sz \<le> 0 \<or> isnan mean then (NaN, NaN)
      else case mean of
             NaN \<Rightarrow> (NaN, NaN)
           | Fin m \<Rightarrow>
               let se = np_sqrt (Fin (m / sz))
               in (fadd mean (fmul (Fin z) se), fsub mean (fmul (Fin z) se)))"

text \<open>The row callback \<^verbatim>\<open>classify\<close>, on the three fields of the row that it reads.\<close>

definition classify :: "pyfloat \<Rightarrow> pyfloat \<Rightarrow> pyfloat \<Rightarrow> string" where
  "classify rate ucl lcl =
     (if isnan rate then ''''
      else if fgt rate ucl then ''high''
      else if flt rate lcl then ''low''
      else '''')"

text \<open>
  One row of the result. The source computes the rate column, then walks the rows with
  \<^verbatim>\<open>iterrows\<close>, calling \<^verbatim>\<open>limits\<close> twice per row with the size
  \<^verbatim>\<open>total_list_size / 1000.0\<close> and appending to four lists that become the limit columns
  in row order, and last applies \<^verbatim>\<open>classify\<close> to every row; no step reads another row,
  so the fields of a row are those below. \<^verbatim>\<open>mean_rate\<close> is one scalar for the whole column.
\<close>

definition metrics_of :: "pyfloat \<Rightarrow> entity_total \<Rightarrow> metrics_row" where
  "metrics_of mean g =
     (let rate = rate_of g;
          (upper95, lower95) = limits mean (total_list_size g / 1000) (196 / 100);
          (upper998, lower998) = limits mean (total_list_size g / 1000) (309 / 100)
      in \<lparr>code = code g, total_items = total_items g,
          total_list_size = total_list_size g,
          rate_per_1000 = rate, mean_rate = mean,
          ucl95 = upper95, lcl95 = lower95, ucl998 = upper998, lcl998 = lower998,
          outlier = classify rate upper998 lower998\<rparr>)"

subsection \<open>The output table and the entry point\<close>

record table =
  tbl_columns :: "string list"
  tbl_rows :: "metrics_row list"

text \<open>\<^verbatim>\<open>grouped[name] = ...\<close>: a new label goes to the end, an existing one keeps its place.\<close>

definition assign_column :: "string list \<Rightarrow> string \<Rightarrow> string list" where
  "assign_column cols name = (if name \<in> set cols then cols else cols @ [name])"

definition empty_columns :: "string list" where
  "empty_columns =
     [''practice_code'', ''total_items'', ''total_list_size'',
      ''rate_per_1000'', ''mean_rate'', ''ucl95'', ''ucl998'',
      ''lcl95'', ''lcl998'', ''outlier'']"

definition grouped_columns :: "string list" where
  "grouped_columns =
     foldl assign_column [''practice_code'', ''total_items'', ''total_list_size'']
       [''rate_per_1000'', ''mean_rate'', ''ucl95'', ''lcl95'', ''ucl998'', ''lcl998'',
        ''outlier'']"

datatype error = KeyError string | AttributeError

text \<open>
  \<^verbatim>\<open>compute_metrics\<close>. A frame with no rows (or no columns) returns before any column is
  looked up. Otherwise \<^verbatim>\<open>dropna(subset=["items"])\<close> raises \<^verbatim>\<open>KeyError\<close> without an
  \<^verbatim>\<open>items\<close> column, \<^verbatim>\<open>df.get("list_size")\<close> is \<^verbatim>\<open>None\<close> without a \<^verbatim>\<open>list_size\<close> column and
  the call of \<^verbatim>\<open>fillna\<close> on it raises \<^verbatim>\<open>AttributeError\<close>, and \<^verbatim>\<open>groupby\<close> raises
  \<^verbatim>\<open>KeyError\<close> without a \<^verbatim>\<open>practice_code\<close> column. The row-wise \<^verbatim>\<open>apply\<close> over a frame
  with no rows is taken to give an empty column.
\<close>

definition compute_metrics :: "dataframe \<Rightarrow> error + table" where
  "compute_metrics df =
     (if df_empty df then Inr \<lparr>tbl_columns = empty_columns, tbl_rows = []\<rparr>
      else if ''items'' \<notin> set (df_columns df) then Inl (KeyError ''items'')
      else if ''list_size'' \<notin> set (df_columns df) then Inl AttributeError
      else if ''practice_code'' \<notin> set (df_columns df) then Inl (KeyError ''practice_code'')
      else let grouped = aggregate (df_rows df);
               mean = overall_mean_rate grouped
           in Inr \<lparr>tbl_columns = grouped_columns,
                   tbl_rows = map (metrics_of mean) grouped\<rparr>)"

subsection \<open>Well-formed input, the formulas of the specification, sample data\<close>

text \<open>The three columns that \<^verbatim>\<open>compute_metrics\<close> looks up.\<close>

definition has_required_columns :: "dataframe \<Rightarrow> bool" where
  "has_required_columns df =
     (''items'' \<in> set (df_columns df) \<and> ''list_size'' \<in> set (df_columns df) \<and>
      ''practice_code'' \<in> set (df_columns df))"

text \<open>
  The limits as the specification words them: the standard error
  \<open>se = sqrt (population_mean_rate / s)\<close>, the upper limit \<open>population_mean_rate + z * se\<close>
  and the lower limit \<open>population_mean_rate - z * se\<close>, for a defined mean \<open>m\<close>, in the
  arithmetic of the source.
\<close>

definition spec_se :: "real \<Rightarrow> real \<Rightarrow> pyfloat" where
  "spec_se m s = np_sqrt (Fin (m / s))"

definition spec_upper :: "real \<Rightarrow> real \<Rightarrow> real \<Rightarrow> pyfloat" where
  "spec_upper m s z = fadd (Fin m) (fmul (Fin z) (spec_se m s))"

definition spec_lower :: "real \<Rightarrow> real \<Rightarrow> real \<Rightarrow> pyfloat" where
  "spec_lower m s z = fsub (Fin m) (fmul (Fin z) (spec_se m s))"

text \<open>
  The aggregation as the specification words it: the retained observations of an entity
  are those with its identifier and a defined numerator; a numerator that is not numeric
  counts 0, a denominator that is missing or not numeric counts 0.
\<close>

definition spec_retained :: "observation list \<Rightarrow> string \<Rightarrow> observation list" where
  "spec_retained rs k = filter (\<lambda>r. practice_code r = Some k \<and> items r \<noteq> Missing) rs"

definition spec_numerator :: "observation \<Rightarrow> real" where
  "spec_numerator r =
     (case items r of
        IntNum w \<Rightarrow> real_of_int (sint w) | FloatNum x \<Rightarrow> x | NonNumeric \<Rightarrow> 0 | Missing \<Rightarrow> 0)"

definition spec_denominator :: "observation \<Rightarrow> real" where
  "spec_denominator r =
     (case list_size r of
        IntNum w \<Rightarrow> real_of_int (sint w) | FloatNum x \<Rightarrow> x | NonNumeric \<Rightarrow> 0 | Missing \<Rightarrow> 0)"

definition spec_total_numerator :: "observation list \<Rightarrow> string \<Rightarrow> real" where
  "spec_total_numerator rs k = sum_list (map spec_numerator (spec_retained rs k))"

definition spec_total_denominator :: "observation list \<Rightarrow> string \<Rightarrow> real" where
  "spec_total_denominator rs k = sum_list (map spec_denominator (spec_retained rs k))"

text \<open>The range of \<^verbatim>\<open>int64\<close>.\<close>

definition in_int64 :: "real \<Rightarrow> bool" where
  "in_int64 x = (- (2 ^ 63) \<le> x \<and> x < 2 ^ 63)"

text \<open>
  The population mean as the specification words it: the arithmetic mean of the defined
  rates, undefined when there is none.
\<close>

definition spec_mean :: "pyfloat list \<Rightarrow> pyfloat" where
  "spec_mean rates =
     (let ds = [x. Fin x \<leftarrow> rates]
      in if ds = [] then NaN else Fin (sum_list ds / real (length ds)))"

text \<open>
  Sample data. \<open>example_df\<close> holds the end-to-end example of the specification, with the
  observations of practice A spread over two months; \<open>sample_df\<close> adds a practice C
  with a missing list size, a missing \<open>items\<close> cell and values that are not numeric.
\<close>

definition example_df :: dataframe where
  "example_df =
     \<lparr>df_columns = [''practice_code'', ''month'', ''items'', ''list_size''],
      df_rows =
        [\<lparr>practice_code = Some ''B'', month = ''2024-01'', items = IntNum 100, list_size = IntNum 1000\<rparr>,
         \<lparr>practice_code = Some ''A'', month = ''2024-01'', items = IntNum 4, list_size = IntNum 400\<rparr>,
         \<lparr>practice_code = Some ''A'', month = ''2024-02'', items = IntNum 6, list_size = IntNum 600\<rparr>]\<rparr>"

definition extra_rows :: "observation list" where
  "extra_rows =
     [\<lparr>practice_code = Some ''C'', month = ''2024-01'', items = IntNum 5, list_size = Missing\<rparr>,
      \<lparr>practice_code = Some ''C'', month = ''2024-02'', items = Missing, list_size = IntNum 700\<rparr>,
      \<lparr>practice_code = Some ''C'', month = ''2024-03'', items = NonNumeric, list_size = NonNumeric\<rparr>]"

definition sample_df :: dataframe where
  "sample_df = example_df\<lparr>df_rows := df_rows example_df @ extra_rows\<rparr>"

definition example_row_A :: metrics_row where
  "example_row_A =
     \<lparr>code = ''A'', total_items = 10, total_list_size = 1000,
      rate_per_1000 = Fin 10, mean_rate = Fin 55,
      ucl95 = Fin (55 + 196 / 100 * sqrt 55), lcl95 = Fin (55 - 196 / 100 * sqrt 55),
      ucl998 = Fin (55 + 309 / 100 * sqrt 55), lcl998 = Fin (55 - 309 / 100 * sqrt 55),
      outlier = ''low''\<rparr>"

definition example_row_B :: metrics_row where
  "example_row_B =
     \<lparr>code = ''B'', total_items = 100, total_list_size = 1000,
      rate_per_1000 = Fin 100, mean_rate = Fin 55,
      ucl95 = Fin (55 + 196 / 100 * sqrt 55), lcl95 = Fin (55 - 196 / 100 * sqrt 55),
      ucl998 = Fin (55 + 309 / 100 * sqrt 55), lcl998 = Fin (55 - 309 / 100 * sqrt 55),
      outlier = ''high''\<rparr>"

definition sample_row_C :: metrics_row where
  "sample_row_C =
     \<lparr>code = ''C'', total_items = 5, total_list_size = 0,
      rate_per_1000 = NaN, mean_rate = Fin 55,
      ucl95 = NaN, lcl95 = NaN, ucl998 = NaN, lcl998 = NaN, outlier = ''''\<rparr>"

definition example_table :: table where
  "example_table = \<lparr>tbl_columns = grouped_columns, tbl_rows = [example_row_A, example_row_B]\<rparr>"

definition sample_table :: table where
  "sample_table =
     \<lparr>tbl_columns = grouped_columns, tbl_rows = [example_row_A, example_row_B, sample_row_C]\<rparr>"

text \<open>
  Frames whose integer sums leave the range of \<^verbatim>\<open>int64\<close>: \<open>4611686018427387904\<close> is
  \<open>2 ^ 62\<close>, and two of them add up to \<open>2 ^ 63\<close>, which wraps around to \<open>- (2 ^ 63)\<close>.
  In \<open>list_overflow_df\<close> the list sizes of practice A overflow, in \<open>items_overflow_df\<close>
  its items do. In \<open>wrap_df\<close> the list sizes of practice P overflow beside a practice Q
  with the rate 10, and \<open>appended_rows\<close> is one observation of a new practice C without
  a list size, which makes the \<^verbatim>\<open>list_size\<close> column a float column.
\<close>

definition list_overflow_df :: dataframe where
  "list_overflow_df =
     \<lparr>df_columns = [''practice_code'', ''month'', ''items'', ''list_size''],
      df_rows =
        [\<lparr>practice_code = Some ''A'', month = ''2024-01'', items = IntNum 10,
          list_size = IntNum 4611686018427387904\<rparr>,
         \<lparr>practice_code = Some ''A'', month = ''2024-02'', items = IntNum 10,
          list_size = IntNum 4611686018427387904\<rparr>]\<rparr>"

definition list_overflow_row :: metrics_row where
  "list_overflow_row =
     \<lparr>code = ''A'', total_items = 20, total_list_size = - 9223372036854775808,
      rate_per_1000 = NaN, mean_rate = NaN,
      ucl95 = NaN, lcl95 = NaN, ucl998 = NaN, lcl998 = NaN, outlier = ''''\<rparr>"



definition wrap_df :: dataframe where
  "wrap_df =
     \<lparr>df_columns = [''practice_code'', ''month'', ''items'', ''list_size''],
      df_rows =
        [\<lparr>practice_code = Some ''P'', month = ''2024-01'', items = IntNum 1,
          list_size = IntNum 4611686018427387904\<rparr>,
         \<lparr>practice_code = Some ''P'', month = ''2024-02'', items = IntNum 1,
          list_size = IntNum 4611686018427387904\<rparr>,
         \<lparr>practice_code = Some ''Q'', month = ''2024-01'', items = IntNum 10,
          list_size = IntNum 1000\<rparr>]\<rparr>"

definition appended_rows :: "observation list" where
  "appended_rows =
     [\<lparr>practice_code = Some ''C'', month = ''2024-01'', items = IntNum 5,
       list_size = Missing\<rparr>]"

text \<open>Two practices of different size that prescribed nothing.\<close>

definition zero_df :: dataframe where
  "zero_df =
     \<lparr>df_columns = [''practice_code'', ''month'', ''items'', ''list_size''],
      df_rows =
        [\<lparr>practice_code = Some ''P1'', month = ''2024-01'', items = IntNum 0, list_size = IntNum 1000\<rparr>,
         \<lparr>practice_code = Some ''P2'', month = ''2024-01'', items = IntNum 0, list_size = IntNum 2000\<rparr>]\<rparr>"

definition zero_small :: metrics_row where
  "zero_small =
     \<lparr>code = ''P1'', total_items = 0, total_list_size = 1000,
      rate_per_1000 = Fin 0, mean_rate = Fin 0,
      ucl95 = Fin 0, lcl95 = Fin 0, ucl998 = Fin 0, lcl998 = Fin 0, outlier = ''''\<rparr>"

definition zero_large :: metrics_row where
  "zero_large =
     \<lparr>code = ''P2'', total_items = 0, total_list_size = 2000,
      rate_per_1000 = Fin 0, mean_rate = Fin 0,
      ucl95 = Fin 0, lcl95 = Fin 0, ucl998 = Fin 0, lcl998 = Fin 0, outlier = ''''\<rparr>"

text \<open>Two practices of different size with the same rate.\<close>

definition funnel_df :: dataframe where
  "funnel_df =
     \<lparr>df_columns = [''practice_code'', ''month'', ''items'', ''list_size''],
      df_rows =
        [\<lparr>practice_code = Some ''E1'', month = ''2024-01'', items = IntNum 10, list_size = IntNum 1000\<rparr>,
         \<lparr>practice_code = Some ''E2'', month = ''2024-01'', items = IntNum 20, list_size = IntNum 2000\<rparr>]\<rparr>"

definition funnel_small :: metrics_row where
  "funnel_small =
     \<lparr>code = ''E1'', total_items = 10, total_list_size = 1000,
      rate_per_1000 = Fin 10, mean_rate = Fin 10,
      ucl95 = Fin (10 + 196 / 100 * sqrt 10), lcl95 = Fin (10 - 196 / 100 * sqrt 10),
      ucl998 = Fin (10 + 309 / 100 * sqrt 10), lcl998 = Fin (10 - 309 / 100 * sqrt 10),
      outlier = ''''\<rparr>"

definition funnel_large :: metrics_row where
  "funnel_large =
     \<lparr>code = ''E2'', total_items = 20, total_list_size = 2000,
      rate_per_1000 = Fin 10, mean_rate = Fin 10,
      ucl95 = Fin (10 + 196 / 100 * sqrt 5), lcl95 = Fin (10 - 196 / 100 * sqrt 5),
      ucl998 = Fin (10 + 309 / 100 * sqrt 5), lcl998 = Fin (10 - 309 / 100 * sqrt 5),
      outlier = ''''\<rparr>"

text \<open>Two practices without any list size, and a frame without rows.\<close>

definition undefined_df :: dataframe where
  "undefined_df =
     \<lparr>df_columns = [''practice_code'', ''month'', ''items'', ''list_size''],
      df_rows =
        [\<lparr>practice_code = Some ''Y'', month = ''2024-01'', items = IntNum 3, list_size = IntNum 0\<rparr>,
         \<lparr>practice_code = Some ''X'', month = ''2024-01'', items = IntNum 5, list_size = Missing\<rparr>]\<rparr>"

definition undefined_row_X :: metrics_row where
  "undefined_row_X =
     \<lparr>code = ''X'', total_items = 5, total_list_size = 0,
      rate_per_1000 = NaN, mean_rate = NaN,
      ucl95 = NaN, lcl95 = NaN, ucl998 = NaN, lcl998 = NaN, outlier = ''''\<rparr>"

definition undefined_row_Y :: metrics_row where
  "undefined_row_Y =
     \<lparr>code = ''Y'', total_items = 3, total_list_size = 0,
      rate_per_1000 = NaN, mean_rate = NaN,
      ucl95 = NaN, lcl95 = NaN, ucl998 = NaN, lcl998 = NaN, outlier = ''''\<rparr>"

definition header_only_df :: dataframe where
  "header_only_df =
     \<lparr>df_columns = [''practice_code'', ''month'', ''items'', ''list_size''], df_rows = []\<rparr>"

section \<open>Auxiliary facts\<close>

lemma grouped_columns_eq:
  "grouped_columns = [''practice_code'', ''total_items'', ''total_list_size'',
     ''rate_per_1000'', ''mean_rate'', ''ucl95'', ''lcl95'', ''ucl998'', ''lcl998'',
     ''outlier'']"
  by (simp add: grouped_columns_def assign_column_def)

lemma compute_metrics_empty:
  "df_empty df \<Longrightarrow> compute_metrics df = Inr \<lparr>tbl_columns = empty_columns, tbl_rows = []\<rparr>"
  by (simp add: compute_metrics_def)

lemma compute_metrics_nonempty:
  "\<not> df_empty df \<Longrightarrow> has_required_columns df \<Longrightarrow>
   compute_metrics df =
     Inr \<lparr>tbl_columns = grouped_columns,
          tbl_rows = map (metrics_of (overall_mean_rate (aggregate (df_rows df))))
                         (aggregate (df_rows df))\<rparr>"
  by (simp add: compute_metrics_def has_required_columns_def Let_def)

lemma aggregate_Nil: "aggregate [] = []"
  by (simp add: aggregate_def groupby_agg_def dropna_items_def group_keys_def)

lemma compute_metrics_rows:
  assumes "has_required_columns df"
  shows "\<exists>cols. compute_metrics df =
     Inr \<lparr>tbl_columns = cols,
          tbl_rows = map (metrics_of (overall_mean_rate (aggregate (df_rows df))))
                         (aggregate (df_rows df))\<rparr>"
proof (cases "df_empty df")
  case True
  with assms have "df_rows df = []"
    by (auto simp: df_empty_def has_required_columns_def)
  with True show ?thesis
    by (simp add: compute_metrics_empty aggregate_Nil)
next
  case False
  with assms show ?thesis
    by (simp add: compute_metrics_nonempty)
qed

lemma compute_metrics_row_cases:
  assumes "compute_metrics df = Inr t" and "r \<in> set (tbl_rows t)"
  shows "\<exists>g \<in> set (aggregate (df_rows df)).
           r = metrics_of (overall_mean_rate (aggregate (df_rows df))) g"
proof (cases "df_empty df")
  case True
  with assms show ?thesis by (auto simp: compute_metrics_empty)
next
  case False
  with assms show ?thesis
    by (auto simp: compute_metrics_def Let_def split: if_splits)
qed

lemma limits_undefined: "sz \<le> 0 \<or> isnan mean \<Longrightarrow> limits mean sz z = (NaN, NaN)"
  by (simp add: limits_def)

lemma limits_defined:
  "0 < sz \<Longrightarrow> limits (Fin m) sz z =
     (fadd (Fin m) (fmul (Fin z) (np_sqrt (Fin (m / sz)))),
      fsub (Fin m) (fmul (Fin z) (np_sqrt (Fin (m / sz)))))"
  by (simp add: limits_def)

lemma limits_nonneg:
  "0 < sz \<Longrightarrow> 0 \<le> m \<Longrightarrow> limits (Fin m) sz z =
     (Fin (m + z * sqrt (m / sz)), Fin (m - z * sqrt (m / sz)))"
  by (simp add: limits_def not_less zero_le_divide_iff)

lemma limits_negative:
  "0 < sz \<Longrightarrow> m < 0 \<Longrightarrow> limits (Fin m) sz z = (NaN, NaN)"
  by (simp add: limits_def divide_neg_pos)

lemma limits_order:
  assumes "limits mean sz z = (Fin u, Fin l)" and "0 \<le> z"
  shows "l \<le> u"
proof -
  from assms(1) have sz: "0 < sz" and nn: "\<not> isnan mean"
    by (auto simp: limits_def split: if_splits)
  then obtain m where m: "mean = Fin m" by (cases mean) auto
  show ?thesis
  proof (cases "m < 0")
    case True
    with assms(1) sz m show ?thesis by (simp add: limits_negative)
  next
    case False
    then have "0 \<le> m" by simp
    with assms(1) sz m have "u = m + z * sqrt (m / sz)" "l = m - z * sqrt (m / sz)"
      by (simp_all add: limits_nonneg)
    moreover have "0 \<le> z * sqrt (m / sz)"
      using \<open>0 \<le> z\<close> \<open>0 \<le> m\<close> sz by simp
    ultimately show ?thesis by linarith
  qed
qed

lemma metrics_of_fields:
  "code (metrics_of mean g) = code g"
  "total_items (metrics_of mean g) = total_items g"
  "total_list_size (metrics_of mean g) = total_list_size g"
  "rate_per_1000 (metrics_of mean g) = rate_of g"
  "mean_rate (metrics_of mean g) = mean"
  "ucl95 (metrics_of mean g) = fst (limits mean (total_list_size g / 1000) (196 / 100))"
  "lcl95 (metrics_of mean g) = snd (limits mean (total_list_size g / 1000) (196 / 100))"
  "ucl998 (metrics_of mean g) = fst (limits mean (total_list_size g / 1000) (309 / 100))"
  "lcl998 (metrics_of mean g) = snd (limits mean (total_list_size g / 1000) (309 / 100))"
  "outlier (metrics_of mean g) =
     classify (rate_of g) (fst (limits mean (total_list_size g / 1000) (309 / 100)))
       (snd (limits mean (total_list_size g / 1000) (309 / 100)))"
  by (simp_all add: metrics_of_def Let_def split: prod.splits)

lemma limits_spec:
  "0 < sz \<Longrightarrow> limits (Fin m) sz z = (spec_upper m sz z, spec_lower m sz z)"
  by (simp add: limits_defined spec_upper_def spec_lower_def spec_se_def)

lemma spec_limits_nonneg:
  "0 \<le> m \<Longrightarrow> 0 < s \<Longrightarrow>
     spec_upper m s z = Fin (m + z * sqrt (m / s)) \<and>
     spec_lower m s z = Fin (m - z * sqrt (m / s))"
  by (simp add: spec_upper_def spec_lower_def spec_se_def not_less zero_le_divide_iff)

lemma classify_output_row:
  assumes "limits mean sz (309 / 100) = (u, l)"
  shows "(classify rate u l = ''high'' \<longleftrightarrow> \<not> isnan rate \<and> fgt rate u) \<and>
         (classify rate u l = ''low'' \<longleftrightarrow> \<not> isnan rate \<and> flt rate l) \<and>
         (\<not> (\<not> isnan rate \<and> fgt rate u) \<and> \<not> (\<not> isnan rate \<and> flt rate l) \<longrightarrow>
            classify rate u l = '''') \<and>
         (rate = u \<or> rate = l \<longrightarrow> classify rate u l = '''') \<and>
         (isnan rate \<longrightarrow> classify rate u l = '''')"
proof -
  have excl: "\<not> (fgt rate u \<and> flt rate l)"
  proof
    assume a: "fgt rate u \<and> flt rate l"
    then obtain x u' l' where eq: "rate = Fin x" "u = Fin u'" "l = Fin l'"
      by (cases rate; cases u; cases l) auto
    with assms have "l' \<le> u'" by (auto dest: limits_order)
    with a eq show False by simp
  qed
  have bound_u: "rate = u \<Longrightarrow> \<not> fgt rate u \<and> \<not> flt rate l"
  proof -
    assume "rate = u"
    then show ?thesis using assms
      by (cases u; cases l) (auto dest: limits_order)
  qed
  have bound_l: "rate = l \<Longrightarrow> \<not> fgt rate u \<and> \<not> flt rate l"
  proof -
    assume "rate = l"
    then show ?thesis using assms
      by (cases u; cases l) (auto dest: limits_order)
  qed
  show ?thesis
    using excl bound_u bound_l by (auto simp: classify_def)
qed

lemma code_aggregate: "map code (aggregate rs) = group_keys (dropna_items rs)"
  by (simp add: aggregate_def groupby_agg_def comp_def)

lemma group_rows_dropna: "group_rows (dropna_items rs) k = spec_retained rs k"
  by (auto simp: group_rows_def dropna_items_def spec_retained_def intro: filter_cong)

lemma set_map_filter_eq:
  "set (List.map_filter f xs) = {y. \<exists>x \<in> set xs. f x = Some y}"
  by (induction xs) (auto split: option.splits)

lemma set_group_keys:
  "set (group_keys rs) = {k. \<exists>r \<in> set rs. practice_code r = Some k}"
  by (auto simp: group_keys_def set_map_filter_eq)

lemma sorted_distinct_group_keys: "sorted (group_keys rs) \<and> distinct (group_keys rs)"
  by (simp add: group_keys_def)

text \<open>Sums of 64-bit words and sums of integers.\<close>

lemma word_sum_list: "sum_list ws = (word_of_int (sum_list (map sint ws)) :: 64 word)"
  by (induction ws) simp_all

lemma sint_word_sum:
  "sint (sum_list ws :: 64 word) = signed_take_bit 63 (sum_list (map sint ws))"
  by (subst word_sum_list) (simp add: signed_of_int)

lemma float_sum_int_cells:
  "list_all is_int_cell cs \<Longrightarrow>
     sum_list (map (\<lambda>c. fillna0 (to_numeric c)) cs) =
     real_of_int (sum_list (map (\<lambda>c. sint (int64_value c)) cs))"
proof (induction cs)
  case Nil
  then show ?case by simp
next
  case (Cons c cs)
  then show ?case by (cases c) simp_all
qed

lemma column_sum_float:
  "column_sum False cs = sum_list (map (\<lambda>c. fillna0 (to_numeric c)) cs)"
  by (simp add: column_sum_def)

lemma column_sum_int64:
  "list_all is_int_cell cs \<Longrightarrow>
     column_sum True cs =
     real_of_int (signed_take_bit 63 (sum_list (map (\<lambda>c. sint (int64_value c)) cs)))"
  by (simp add: column_sum_def sint_word_sum comp_def)



text \<open>A sum is exact in a float column, and in an integer column when it fits.\<close>

lemma column_sum_exact:
  assumes "b \<longrightarrow> list_all is_int_cell cs"
    and "in_int64 (sum_list (map (\<lambda>c. fillna0 (to_numeric c)) cs))"
  shows "column_sum b cs = sum_list (map (\<lambda>c. fillna0 (to_numeric c)) cs)"
proof (cases b)
  case False
  then show ?thesis by (simp add: column_sum_float)
next
  case True
  with assms(1) have ints: "list_all is_int_cell cs" by simp
  let ?n = "sum_list (map (\<lambda>c. sint (int64_value c)) cs)"
  from assms(2) have "- (2 ^ 63) \<le> ?n \<and> ?n < 2 ^ 63"
    unfolding in_int64_def float_sum_int_cells [OF ints]
    by (metis of_int_le_iff of_int_less_iff of_int_minus of_int_numeral of_int_power)
  then have "signed_take_bit 63 ?n = ?n"
    by (simp add: signed_take_bit_int_eq_self)
  with True show ?thesis
    by (simp add: column_sum_int64 [OF ints] float_sum_int_cells [OF ints])
qed


lemma items_column_values:
  "map (\<lambda>c. fillna0 (to_numeric c)) (items_column rs) = map spec_numerator rs"
proof -
  have "fillna0 (to_numeric (items r)) = spec_numerator r" for r
    by (cases "items r") (simp_all add: spec_numerator_def)
  then show ?thesis by (simp add: items_column_def)
qed

lemma list_size_column_values:
  "map (\<lambda>c. fillna0 (to_numeric c)) (list_size_column rs) = map spec_denominator rs"
proof -
  have "fillna0 (to_numeric (fillna_cell (list_size r))) = spec_denominator r" for r
    by (cases "list_size r") (simp_all add: spec_denominator_def)
  then show ?thesis by (simp add: list_size_column_def)
qed

lemma is_int_fillna_cell: "is_int_cell c \<Longrightarrow> is_int_cell (fillna_cell c)"
  by (cases c) simp_all

lemma int64_column_group:
  "items_int64 rs \<Longrightarrow> list_all is_int_cell (items_column (group_rows (dropna_items rs) k))"
  "list_size_int64 rs \<Longrightarrow>
     list_all is_int_cell (list_size_column (group_rows (dropna_items rs) k))"
  by (simp_all add: items_int64_def list_size_int64_def int64_column_def items_column_def
      list_size_column_def group_rows_def dropna_items_def list_all_iff is_int_fillna_cell)


lemma group_sums_exact:
  assumes "bi \<longrightarrow> list_all is_int_cell (items_column G)"
    and "bl \<longrightarrow> list_all is_int_cell (list_size_column G)"
    and "in_int64 (sum_list (map spec_numerator G))"
    and "in_int64 (sum_list (map spec_denominator G))"
  shows "column_sum bi (items_column G) = sum_list (map spec_numerator G)"
    and "column_sum bl (list_size_column G) = sum_list (map spec_denominator G)"
proof -
  show "column_sum bi (items_column G) = sum_list (map spec_numerator G)"
    using column_sum_exact [of bi "items_column G"] assms(1,3)
    by (simp add: items_column_values)
  show "column_sum bl (list_size_column G) = sum_list (map spec_denominator G)"
    using column_sum_exact [of bl "list_size_column G"] assms(2,4)
    by (simp add: list_size_column_values)
qed

lemma dropna_items_append:
  "dropna_items (rs @ extra) = dropna_items rs @ dropna_items extra"
  by (simp add: dropna_items_def)

lemma in_int64_zero: "in_int64 0"
  by (simp add: in_int64_def)

lemma defined_values_skip:
  assumes "\<forall>x \<in> set xs. x \<noteq> k \<longrightarrow> f x = g x" and "f k = NaN"
  shows "defined_values (map f xs) = defined_values (map g (filter (\<lambda>x. x \<noteq> k) xs))"
proof -
  have step: "defined_values (x # ys) =
      (case x of NaN \<Rightarrow> defined_values ys | Fin v \<Rightarrow> v # defined_values ys)" for x ys
    by (cases x) simp_all
  show ?thesis
    using assms by (induction xs) (auto simp: step split: pyfloat.splits)
qed

lemma map_filter_append:
  "List.map_filter f (xs @ ys) = List.map_filter f xs @ List.map_filter f ys"
  by (simp add: List.map_filter_def)

lemma group_keys_append_new:
  assumes "\<forall>r \<in> set E. practice_code r = Some k"
    and "\<forall>r \<in> set R. practice_code r \<noteq> Some k"
  shows "filter (\<lambda>x. x \<noteq> k) (group_keys (R @ E)) = group_keys R"
proof -
  have R: "filter (\<lambda>x. x \<noteq> k) (List.map_filter practice_code R) = List.map_filter practice_code R"
    using assms(2) by (auto simp: filter_id_conv set_map_filter_eq)
  have E: "filter (\<lambda>x. x \<noteq> k) (List.map_filter practice_code E) = []"
    using assms(1) by (auto simp: filter_empty_conv set_map_filter_eq)
  show ?thesis
    by (simp add: group_keys_def filter_sort remdups_filter [symmetric] map_filter_append R E)
qed

lemma group_rows_append_old:
  assumes "\<forall>r \<in> set E. practice_code r = Some k" and "k' \<noteq> k"
  shows "group_rows (R @ E) k' = group_rows R k'"
  using assms by (auto simp: group_rows_def filter_empty_conv)

lemma group_rows_append_new:
  assumes "\<forall>r \<in> set E. practice_code r = Some k"
    and "\<forall>r \<in> set R. practice_code r \<noteq> Some k"
  shows "group_rows (R @ E) k = E"
  using assms by (auto simp: group_rows_def filter_empty_conv filter_id_conv)

lemma spec_retained_all:
  assumes "\<forall>r \<in> set extra. practice_code r = Some k"
  shows "spec_retained extra k = dropna_items extra"
  using assms by (auto simp: spec_retained_def dropna_items_def intro: filter_cong)

lemma overall_mean_rate_append_new:
  assumes new: "\<forall>r \<in> set extra. practice_code r = Some k"
    and fresh: "\<forall>r \<in> set rs. practice_code r \<noteq> Some k"
    and zero: "sum_list (map spec_denominator (spec_retained extra k)) = 0"
    and fits: "\<forall>k'. in_int64 (sum_list (map spec_numerator (spec_retained rs k'))) \<and>
                    in_int64 (sum_list (map spec_denominator (spec_retained rs k')))"
  shows "overall_mean_rate (aggregate (rs @ extra)) = overall_mean_rate (aggregate rs)"
proof -
  let ?R = "dropna_items rs" and ?E = "dropna_items extra"
  let ?row = "\<lambda>bi bl xs k. \<lparr>code = k,
               total_items = column_sum bi (items_column (group_rows xs k)),
               total_list_size = column_sum bl (list_size_column (group_rows xs k))\<rparr>"
  let ?bi = "items_int64 rs" and ?bl = "list_size_int64 rs"
  let ?bi' = "items_int64 (rs @ extra)" and ?bl' = "list_size_int64 (rs @ extra)"
  have E: "\<forall>r \<in> set ?E. practice_code r = Some k"
    using new by (simp add: dropna_items_def)
  have R: "\<forall>r \<in> set ?R. practice_code r \<noteq> Some k"
    using fresh by (simp add: dropna_items_def)
  have ints': "?bi' \<longrightarrow> list_all is_int_cell (items_column (group_rows (?R @ ?E) x))"
    "?bl' \<longrightarrow> list_all is_int_cell (list_size_column (group_rows (?R @ ?E) x))" for x
    using int64_column_group [of "rs @ extra" x] by (simp_all add: dropna_items_append)
  have ints: "?bi \<longrightarrow> list_all is_int_cell (items_column (group_rows ?R x))"
    "?bl \<longrightarrow> list_all is_int_cell (list_size_column (group_rows ?R x))" for x
    using int64_column_group [of rs x] by simp_all
  have old: "\<forall>x \<in> set (group_keys (?R @ ?E)). x \<noteq> k \<longrightarrow>
      rate_of (?row ?bi' ?bl' (?R @ ?E) x) = rate_of (?row ?bi ?bl ?R x)"
  proof (intro ballI impI)
    fix x assume "x \<noteq> k"
    then have g: "group_rows (?R @ ?E) x = group_rows ?R x"
      by (rule group_rows_append_old [OF E])
    from fits have f: "in_int64 (sum_list (map spec_numerator (group_rows ?R x)))"
      "in_int64 (sum_list (map spec_denominator (group_rows ?R x)))"
      by (simp_all add: group_rows_dropna)
    have "?row ?bi' ?bl' (?R @ ?E) x = ?row ?bi ?bl ?R x"
      using group_sums_exact [OF ints' [of x, unfolded g] f]
        group_sums_exact [OF ints [of x] f]
      by (simp add: g)
    then show "rate_of (?row ?bi' ?bl' (?R @ ?E) x) = rate_of (?row ?bi ?bl ?R x)"
      by simp
  qed
  have newrow: "rate_of (?row ?bi' ?bl' (?R @ ?E) k) = NaN"
  proof -
    have g: "group_rows (?R @ ?E) k = ?E"
      by (rule group_rows_append_new [OF E R])
    from zero have z: "sum_list (map spec_denominator (group_rows (?R @ ?E) k)) = 0"
      by (simp add: g spec_retained_all [OF new])
    have "column_sum ?bl' (list_size_column (group_rows (?R @ ?E) k)) = 0"
      using column_sum_exact [of ?bl' "list_size_column (group_rows (?R @ ?E) k)"]
        ints'(2) [of k] z
      by (simp add: list_size_column_values in_int64_zero)
    then show ?thesis by (simp add: rate_of_def)
  qed
  have "defined_values (map (\<lambda>x. rate_of (?row ?bi' ?bl' (?R @ ?E) x))
          (group_keys (?R @ ?E))) =
        defined_values (map (\<lambda>x. rate_of (?row ?bi ?bl ?R x))
          (filter (\<lambda>x. x \<noteq> k) (group_keys (?R @ ?E))))"
    by (rule defined_values_skip [OF old newrow])
  also have "filter (\<lambda>x. x \<noteq> k) (group_keys (?R @ ?E)) = group_keys ?R"
    by (rule group_keys_append_new [OF E R])
  finally show ?thesis
    by (simp add: overall_mean_rate_def aggregate_def groupby_agg_def dropna_items_append
        mean_skipna_def comp_def)
qed

lemma defined_values_comprehension: "defined_values xs = [x. Fin x \<leftarrow> xs]"
  by (induction xs rule: defined_values.induct) simp_all

lemma mean_skipna_spec: "mean_skipna xs = spec_mean xs"
  by (simp add: mean_skipna_def spec_mean_def defined_values_comprehension)

lemma has_required_columns_rows [simp]:
  "has_required_columns (df\<lparr>df_rows := rs\<rparr>) = has_required_columns df"
  by (simp add: has_required_columns_def)

lemma rates_of_metrics:
  "map rate_per_1000 (map (metrics_of mean) gs) = map rate_of gs"
  by (simp add: comp_def metrics_of_fields)

lemma defined_values_all_nan: "\<forall>x \<in> set xs. x = NaN \<Longrightarrow> defined_values xs = []"
  by (induction xs) simp_all

lemma sqrt55_bounds: "7415 / 1000 < sqrt 55 \<and> sqrt 55 < 7417 / 1000"
proof
  show "7415 / 1000 < sqrt 55"
    by (rule real_less_rsqrt) (simp add: power2_eq_square)
  show "sqrt 55 < 7417 / 1000"
    by (rule real_less_lsqrt) (simp_all add: power2_eq_square)
qed

lemma metrics_of_A:
  "metrics_of (Fin 55) \<lparr>code = ''A'', total_items = 10, total_list_size = 1000\<rparr> =
     example_row_A"
  using sqrt55_bounds
  by (simp add: metrics_of_def rate_of_def limits_def classify_def example_row_A_def)

lemma metrics_of_B:
  "metrics_of (Fin 55) \<lparr>code = ''B'', total_items = 100, total_list_size = 1000\<rparr> =
     example_row_B"
  using sqrt55_bounds
  by (simp add: metrics_of_def rate_of_def limits_def classify_def example_row_B_def)

lemma metrics_of_C:
  "metrics_of (Fin 55) \<lparr>code = ''C'', total_items = 5, total_list_size = 0\<rparr> =
     sample_row_C"
  by (simp add: metrics_of_def rate_of_def limits_def classify_def sample_row_C_def)

lemma aggregate_example:
  "aggregate (df_rows example_df) =
     [\<lparr>code = ''A'', total_items = 10, total_list_size = 1000\<rparr>,
      \<lparr>code = ''B'', total_items = 100, total_list_size = 1000\<rparr>]"
  by (simp add: aggregate_def groupby_agg_def dropna_items_def group_keys_def group_rows_def
      example_df_def items_int64_def list_size_int64_def items_column_def
      list_size_column_def int64_column_def column_sum_def)

lemma aggregate_sample:
  "aggregate (df_rows sample_df) =
     [\<lparr>code = ''A'', total_items = 10, total_list_size = 1000\<rparr>,
      \<lparr>code = ''B'', total_items = 100, total_list_size = 1000\<rparr>,
      \<lparr>code = ''C'', total_items = 5, total_list_size = 0\<rparr>]"
  by (simp add: aggregate_def groupby_agg_def dropna_items_def group_keys_def group_rows_def
      sample_df_def example_df_def extra_rows_def items_int64_def list_size_int64_def
      items_column_def list_size_column_def int64_column_def column_sum_def)

lemma mean_example:
  "overall_mean_rate
     [\<lparr>code = ''A'', total_items = 10, total_list_size = 1000\<rparr>,
      \<lparr>code = ''B'', total_items = 100, total_list_size = 1000\<rparr>] = Fin 55"
  by (simp add: overall_mean_rate_def mean_skipna_def rate_of_def)

lemma mean_sample:
  "overall_mean_rate
     [\<lparr>code = ''A'', total_items = 10, total_list_size = 1000\<rparr>,
      \<lparr>code = ''B'', total_items = 100, total_list_size = 1000\<rparr>,
      \<lparr>code = ''C'', total_items = 5, total_list_size = 0\<rparr>] = Fin 55"
  by (simp add: overall_mean_rate_def mean_skipna_def rate_of_def)

lemma required_example: "has_required_columns example_df"
  by (simp add: has_required_columns_def example_df_def)

lemma required_sample: "has_required_columns sample_df"
  by (simp add: has_required_columns_def example_df_def sample_df_def)

lemma example_run: "compute_metrics example_df = Inr example_table"
proof -
  have "\<not> df_empty example_df" by (simp add: df_empty_def example_df_def)
  from compute_metrics_nonempty [OF this required_example] show ?thesis
    by (simp add: aggregate_example mean_example metrics_of_A metrics_of_B example_table_def)
qed

lemma sample_run: "compute_metrics sample_df = Inr sample_table"
proof -
  have "\<not> df_empty sample_df" by (simp add: df_empty_def sample_df_def example_df_def)
  from compute_metrics_nonempty [OF this required_sample] show ?thesis
    by (simp add: aggregate_sample mean_sample metrics_of_A metrics_of_B metrics_of_C
        sample_table_def)
qed

lemmas run_defs = compute_metrics_def df_empty_def aggregate_def groupby_agg_def
  dropna_items_def group_keys_def group_rows_def items_int64_def list_size_int64_def
  items_column_def list_size_column_def int64_column_def column_sum_def
  overall_mean_rate_def mean_skipna_def rate_of_def metrics_of_def limits_def classify_def
  Let_def

lemma list_overflow_run:
  "compute_metrics list_overflow_df =
     Inr \<lparr>tbl_columns = grouped_columns, tbl_rows = [list_overflow_row]\<rparr>"
  by (simp add: run_defs list_overflow_df_def list_overflow_row_def)


lemma aggregate_wrap:
  "aggregate (df_rows wrap_df) =
     [\<lparr>code = ''P'', total_items = 2, total_list_size = - 9223372036854775808\<rparr>,
      \<lparr>code = ''Q'', total_items = 10, total_list_size = 1000\<rparr>]"
  by (simp add: aggregate_def groupby_agg_def dropna_items_def group_keys_def group_rows_def
      items_int64_def list_size_int64_def items_column_def list_size_column_def
      int64_column_def column_sum_def wrap_df_def)

lemma aggregate_wrap_appended:
  "aggregate (df_rows wrap_df @ appended_rows) =
     [\<lparr>code = ''C'', total_items = 5, total_list_size = 0\<rparr>,
      \<lparr>code = ''P'', total_items = 2, total_list_size = 9223372036854775808\<rparr>,
      \<lparr>code = ''Q'', total_items = 10, total_list_size = 1000\<rparr>]"
  by (simp add: aggregate_def groupby_agg_def dropna_items_def group_keys_def group_rows_def
      items_int64_def list_size_int64_def items_column_def list_size_column_def
      int64_column_def column_sum_def wrap_df_def
      appended_rows_def)

lemma mean_wrap:
  "overall_mean_rate
     [\<lparr>code = ''P'', total_items = 2, total_list_size = - 9223372036854775808\<rparr>,
      \<lparr>code = ''Q'', total_items = 10, total_list_size = 1000\<rparr>] = Fin 10"
  by (simp add: overall_mean_rate_def mean_skipna_def rate_of_def)

lemma mean_wrap_appended:
  "overall_mean_rate
     [\<lparr>code = ''C'', total_items = 5, total_list_size = 0\<rparr>,
      \<lparr>code = ''P'', total_items = 2, total_list_size = 9223372036854775808\<rparr>,
      \<lparr>code = ''Q'', total_items = 10, total_list_size = 1000\<rparr>] =
   Fin ((2 / 9223372036854775808 * 1000 + 10) / 2)"
  by (simp add: overall_mean_rate_def mean_skipna_def rate_of_def)

lemma required_wrap: "has_required_columns wrap_df"
  by (simp add: has_required_columns_def wrap_df_def)

lemma zero_run:
  "compute_metrics zero_df =
     Inr \<lparr>tbl_columns = grouped_columns, tbl_rows = [zero_small, zero_large]\<rparr>"
  by (simp add: run_defs zero_df_def zero_small_def zero_large_def)

lemma funnel_run:
  "compute_metrics funnel_df =
     Inr \<lparr>tbl_columns = grouped_columns, tbl_rows = [funnel_small, funnel_large]\<rparr>"
  by (simp add: run_defs funnel_df_def funnel_small_def funnel_large_def)

lemma undefined_run:
  "compute_metrics undefined_df =
     Inr \<lparr>tbl_columns = grouped_columns, tbl_rows = [undefined_row_X, undefined_row_Y]\<rparr>"
  by (simp add: run_defs undefined_df_def undefined_row_X_def undefined_row_Y_def)

lemma sample_rows: "tbl_rows sample_table = [example_row_A, example_row_B, sample_row_C]"
  by (simp add: sample_table_def)

lemma run_result:
  assumes "\<exists>t. compute_metrics df = Inr t \<and> Q t" and "compute_metrics df = Inr T"
  shows "Q T"
  using assms by auto

lemma required_undefined: "has_required_columns undefined_df"
  by (simp add: has_required_columns_def undefined_df_def)



section \<open>The claims\<close>

text \<open>
  Claim C1, as amended. For every row of the output, a positive \<open>total_list_size\<close> gives
  \<open>rate_per_1000 = total_items / total_list_size * 1000\<close>, and the rate is the undefined
  sentinel exactly when \<open>total_list_size \<le> 0\<close> (the guard of the source is \<^verbatim>\<open>> 0\<close>). For
  a row whose total is non-negative this is the same as \<open>total_list_size = 0\<close>; a total
  of non-negative list sizes is negative only when their \<^verbatim>\<open>int64\<close> sum wraps around.
\<close>

theorem rate_definition:
  assumes "compute_metrics df = Inr t" and "r \<in> set (tbl_rows t)"
  shows "(0 < total_list_size r \<longrightarrow>
            rate_per_1000 r = Fin (total_items r / total_list_size r * 1000)) \<and>
         (isnan (rate_per_1000 r) \<longleftrightarrow> total_list_size r \<le> 0) \<and>
         (0 \<le> total_list_size r \<longrightarrow>
            (isnan (rate_per_1000 r) \<longleftrightarrow> total_list_size r = 0))"
proof -
  from compute_metrics_row_cases [OF assms] obtain g mean
    where r: "r = metrics_of mean g" by blast
  show ?thesis
    by (auto simp: r metrics_of_fields rate_of_def)
qed

text \<open>
  The statement of C1 at the sample run: practice A has a positive total and the rate
  10, practice C has the total 0 and an undefined rate.
\<close>

theorem rate_definition_witness:
  "compute_metrics sample_df = Inr sample_table \<and>
   rate_per_1000 example_row_A =
     Fin (total_items example_row_A / total_list_size example_row_A * 1000) \<and>
   isnan (rate_per_1000 sample_row_C) \<and> total_list_size sample_row_C \<le> 0 \<and>
   total_list_size sample_row_C = 0"
proof -
  have a: "example_row_A \<in> set (tbl_rows sample_table)"
    and c: "sample_row_C \<in> set (tbl_rows sample_table)"
    by (simp_all add: sample_rows)
  have "0 < total_list_size example_row_A" by (simp add: example_row_A_def)
  with rate_definition [OF sample_run a] have ra: "rate_per_1000 example_row_A =
     Fin (total_items example_row_A / total_list_size example_row_A * 1000)" by blast
  have z: "total_list_size sample_row_C = 0" by (simp add: sample_row_C_def)
  with rate_definition [OF sample_run c] have "isnan (rate_per_1000 sample_row_C)" by simp
  with ra z sample_run show ?thesis by simp
qed

text \<open>
  C1 as stated ("undefined iff the total is 0") fails where the list sizes of a practice
  overflow: practice A has two observations with the list size \<open>2 ^ 62\<close>, both
  non-negative; the \<^verbatim>\<open>int64\<close> sum of the source wraps around to \<open>- (2 ^ 63)\<close>, which is not
  0, and the rate is undefined because the total is not positive.
\<close>

theorem rate_definedness_counterexample:
  "compute_metrics list_overflow_df =
     Inr \<lparr>tbl_columns = grouped_columns, tbl_rows = [list_overflow_row]\<rparr> \<and>
   map spec_denominator (df_rows list_overflow_df) =
     [4611686018427387904, 4611686018427387904] \<and>
   total_list_size list_overflow_row = - 9223372036854775808 \<and>
   isnan (rate_per_1000 list_overflow_row) \<and> total_list_size list_overflow_row \<noteq> 0"
  using list_overflow_run
  by (simp add: list_overflow_row_def list_overflow_df_def spec_denominator_def)

text \<open>
  Claim C2. With the required columns present the run returns a table (no error), the
  table has the four limit columns, and in every row, with \<open>s = total_list_size / 1000\<close>:
  if \<open>s > 0\<close> and the mean rate is defined, the limits are
  \<open>mean \<plusminus> z * sqrt (mean / s)\<close> for \<open>z = 1.96\<close> and \<open>z = 3.09\<close>; if \<open>s \<le> 0\<close> or the mean rate is
  undefined, all four limits are undefined. \<open>spec_upper\<close> and \<open>spec_lower\<close> are the
  formulas of the specification in float arithmetic; the last conjunct gives their value
  for a non-negative mean.
\<close>

theorem control_limits:
  assumes "has_required_columns df"
  shows "\<exists>t. compute_metrics df = Inr t \<and>
     {''ucl95'', ''lcl95'', ''ucl998'', ''lcl998''} \<subseteq> set (tbl_columns t) \<and>
     (\<forall>r \<in> set (tbl_rows t).
        (\<forall>m. 0 < total_list_size r / 1000 \<and> mean_rate r = Fin m \<longrightarrow>
           ucl95 r = spec_upper m (total_list_size r / 1000) (196 / 100) \<and>
           lcl95 r = spec_lower m (total_list_size r / 1000) (196 / 100) \<and>
           ucl998 r = spec_upper m (total_list_size r / 1000) (309 / 100) \<and>
           lcl998 r = spec_lower m (total_list_size r / 1000) (309 / 100)) \<and>
        (total_list_size r / 1000 \<le> 0 \<or> isnan (mean_rate r) \<longrightarrow>
           ucl95 r = NaN \<and> lcl95 r = NaN \<and> ucl998 r = NaN \<and> lcl998 r = NaN)) \<and>
     (\<forall>m s z. 0 \<le> m \<and> 0 < s \<longrightarrow>
        spec_upper m s z = Fin (m + z * sqrt (m / s)) \<and>
        spec_lower m s z = Fin (m - z * sqrt (m / s)))"
  (is "\<exists>t. _ \<and> _ \<and> (\<forall>r \<in> set (tbl_rows t). ?P r) \<and> ?S")
proof -
  let ?mean = "overall_mean_rate (aggregate (df_rows df))"
  from compute_metrics_rows [OF assms] obtain cols where
    t: "compute_metrics df =
          Inr \<lparr>tbl_columns = cols,
               tbl_rows = map (metrics_of ?mean) (aggregate (df_rows df))\<rparr>"
    by blast
  let ?T = "\<lparr>tbl_columns = cols,
             tbl_rows = map (metrics_of ?mean) (aggregate (df_rows df))\<rparr>"
  have cols: "cols = empty_columns \<or> cols = grouped_columns"
    using t by (cases "df_empty df")
      (simp_all add: compute_metrics_empty compute_metrics_nonempty assms)
  have present: "{''ucl95'', ''lcl95'', ''ucl998'', ''lcl998''} \<subseteq> set (tbl_columns ?T)"
    using cols by (auto simp: empty_columns_def grouped_columns_eq)
  have rows: "\<forall>r \<in> set (tbl_rows ?T). ?P r"
  proof
    fix r assume "r \<in> set (tbl_rows ?T)"
    then obtain g where r: "r = metrics_of ?mean g" by auto
    have defined: "\<And>m. 0 < total_list_size g / 1000 \<Longrightarrow> ?mean = Fin m \<Longrightarrow>
        limits ?mean (total_list_size g / 1000) z =
          (spec_upper m (total_list_size g / 1000) z,
           spec_lower m (total_list_size g / 1000) z)" for z
      by (simp add: limits_spec)
    have undefined: "total_list_size g / 1000 \<le> 0 \<or> isnan ?mean \<Longrightarrow>
        limits ?mean (total_list_size g / 1000) z = (NaN, NaN)" for z
      by (rule limits_undefined)
    show "?P r"
      unfolding r metrics_of_fields using defined undefined by simp
  qed
  have spec: ?S
    using spec_limits_nonneg by blast
  from t present rows spec show ?thesis
    by (intro exI [of _ ?T] conjI)
qed

text \<open>
  C2 at the sample run: practice A has size 1 and limits around the mean 55, practice C
  has size 0 and undefined limits.
\<close>

theorem control_limits_witness:
  "has_required_columns sample_df \<and> compute_metrics sample_df = Inr sample_table \<and>
   ucl95 example_row_A = spec_upper 55 (total_list_size example_row_A / 1000) (196 / 100) \<and>
   lcl95 example_row_A = spec_lower 55 (total_list_size example_row_A / 1000) (196 / 100) \<and>
   ucl998 example_row_A = spec_upper 55 (total_list_size example_row_A / 1000) (309 / 100) \<and>
   lcl998 example_row_A = spec_lower 55 (total_list_size example_row_A / 1000) (309 / 100) \<and>
   spec_upper 55 1 (309 / 100) = Fin (55 + 309 / 100 * sqrt (55 / 1)) \<and>
   spec_lower 55 1 (309 / 100) = Fin (55 - 309 / 100 * sqrt (55 / 1)) \<and>
   ucl95 sample_row_C = NaN \<and> lcl95 sample_row_C = NaN \<and>
   ucl998 sample_row_C = NaN \<and> lcl998 sample_row_C = NaN"
proof -
  from control_limits [OF required_sample] sample_run
  have rows: "\<forall>r \<in> set (tbl_rows sample_table).
        (\<forall>m. 0 < total_list_size r / 1000 \<and> mean_rate r = Fin m \<longrightarrow>
           ucl95 r = spec_upper m (total_list_size r / 1000) (196 / 100) \<and>
           lcl95 r = spec_lower m (total_list_size r / 1000) (196 / 100) \<and>
           ucl998 r = spec_upper m (total_list_size r / 1000) (309 / 100) \<and>
           lcl998 r = spec_lower m (total_list_size r / 1000) (309 / 100)) \<and>
        (total_list_size r / 1000 \<le> 0 \<or> isnan (mean_rate r) \<longrightarrow>
           ucl95 r = NaN \<and> lcl95 r = NaN \<and> ucl998 r = NaN \<and> lcl998 r = NaN)"
    and spec: "\<forall>m s z. 0 \<le> m \<and> 0 < s \<longrightarrow>
        spec_upper m s z = Fin (m + z * sqrt (m / s)) \<and>
        spec_lower m s z = Fin (m - z * sqrt (m / s))"
    by auto
  have a: "0 < total_list_size example_row_A / 1000 \<and> mean_rate example_row_A = Fin 55"
    by (simp add: example_row_A_def)
  have c: "total_list_size sample_row_C / 1000 \<le> 0" by (simp add: sample_row_C_def)
  from rows a have la:
    "ucl95 example_row_A = spec_upper 55 (total_list_size example_row_A / 1000) (196 / 100) \<and>
     lcl95 example_row_A = spec_lower 55 (total_list_size example_row_A / 1000) (196 / 100) \<and>
     ucl998 example_row_A = spec_upper 55 (total_list_size example_row_A / 1000) (309 / 100) \<and>
     lcl998 example_row_A = spec_lower 55 (total_list_size example_row_A / 1000) (309 / 100)"
    unfolding sample_rows by simp
  from rows c have lc: "ucl95 sample_row_C = NaN \<and> lcl95 sample_row_C = NaN \<and>
     ucl998 sample_row_C = NaN \<and> lcl998 sample_row_C = NaN"
    unfolding sample_rows by simp
  from spec have sp: "spec_upper 55 1 (309 / 100) = Fin (55 + 309 / 100 * sqrt (55 / 1)) \<and>
     spec_lower 55 1 (309 / 100) = Fin (55 - 309 / 100 * sqrt (55 / 1))"
    by simp
  from required_sample sample_run la lc sp show ?thesis by blast
qed

text \<open>
  Claim C3. Every aggregated practice has its row in the output, and in every row the
  flag is the value of \<open>classify\<close> on that row's own rate and 99.8% limits: it is
  \<open>high\<close> iff the rate is defined and strictly above \<open>ucl998\<close>, \<open>low\<close> iff the rate is
  defined and strictly below \<open>lcl998\<close>, and empty (no outlier) otherwise, in particular
  when the rate equals a limit and when the rate is undefined.
\<close>

theorem classification:
  assumes "has_required_columns df"
  shows "\<exists>t. compute_metrics df = Inr t \<and>
     map code (tbl_rows t) = map code (aggregate (df_rows df)) \<and>
     (\<forall>r \<in> set (tbl_rows t).
        outlier r = classify (rate_per_1000 r) (ucl998 r) (lcl998 r) \<and>
        (outlier r = ''high'' \<longleftrightarrow>
           \<not> isnan (rate_per_1000 r) \<and> fgt (rate_per_1000 r) (ucl998 r)) \<and>
        (outlier r = ''low'' \<longleftrightarrow>
           \<not> isnan (rate_per_1000 r) \<and> flt (rate_per_1000 r) (lcl998 r)) \<and>
        (\<not> (\<not> isnan (rate_per_1000 r) \<and> fgt (rate_per_1000 r) (ucl998 r)) \<and>
         \<not> (\<not> isnan (rate_per_1000 r) \<and> flt (rate_per_1000 r) (lcl998 r)) \<longrightarrow>
           outlier r = '''') \<and>
        (rate_per_1000 r = ucl998 r \<or> rate_per_1000 r = lcl998 r \<longrightarrow> outlier r = '''') \<and>
        (isnan (rate_per_1000 r) \<longrightarrow> outlier r = ''''))"
  (is "\<exists>t. _ \<and> _ \<and> (\<forall>r \<in> set (tbl_rows t). ?P r)")
proof -
  let ?mean = "overall_mean_rate (aggregate (df_rows df))"
  from compute_metrics_rows [OF assms] obtain cols where
    t: "compute_metrics df =
          Inr \<lparr>tbl_columns = cols,
               tbl_rows = map (metrics_of ?mean) (aggregate (df_rows df))\<rparr>"
    by blast
  let ?T = "\<lparr>tbl_columns = cols,
             tbl_rows = map (metrics_of ?mean) (aggregate (df_rows df))\<rparr>"
  have kept: "map code (tbl_rows ?T) = map code (aggregate (df_rows df))"
    by (simp add: comp_def metrics_of_fields)
  have rows: "\<forall>r \<in> set (tbl_rows ?T). ?P r"
  proof
    fix r assume "r \<in> set (tbl_rows ?T)"
    then obtain g where r: "r = metrics_of ?mean g" by auto
    obtain u l where ul: "limits ?mean (total_list_size g / 1000) (309 / 100) = (u, l)"
      by (cases "limits ?mean (total_list_size g / 1000) (309 / 100)")
    show "?P r"
      unfolding r metrics_of_fields ul fst_conv snd_conv
      using classify_output_row [OF ul, of "rate_of g"] by simp
  qed
  from t kept rows show ?thesis
    by (intro exI [of _ ?T] conjI)
qed

text \<open>
  C3 at the sample run: A is low, B is high, C has an undefined rate, no flag, and its
  row is in the output.
\<close>

theorem classification_witness:
  "has_required_columns sample_df \<and> compute_metrics sample_df = Inr sample_table \<and>
   map code (tbl_rows sample_table) = [''A'', ''B'', ''C''] \<and>
   outlier example_row_A = classify (rate_per_1000 example_row_A) (ucl998 example_row_A) (lcl998 example_row_A) \<and>
   outlier example_row_A = ''low'' \<and> flt (rate_per_1000 example_row_A) (lcl998 example_row_A) \<and>
   outlier example_row_B = ''high'' \<and> fgt (rate_per_1000 example_row_B) (ucl998 example_row_B) \<and>
   isnan (rate_per_1000 sample_row_C) \<and> outlier sample_row_C = ''''"
proof -
  note q = run_result [OF classification [OF required_sample] sample_run]
  have a: "outlier example_row_A = ''low''" and b: "outlier example_row_B = ''high''"
    and c: "isnan (rate_per_1000 sample_row_C)"
    by (simp_all add: example_row_A_def example_row_B_def sample_row_C_def)
  have codes: "map code (tbl_rows sample_table) = [''A'', ''B'', ''C'']"
    by (simp add: sample_rows example_row_A_def example_row_B_def sample_row_C_def)
  note rows = q [THEN conjunct2, unfolded sample_rows, rule_format]
  have ma: "example_row_A \<in> set [example_row_A, example_row_B, sample_row_C]"
    and mb: "example_row_B \<in> set [example_row_A, example_row_B, sample_row_C]"
    and mc: "sample_row_C \<in> set [example_row_A, example_row_B, sample_row_C]"
    by simp_all
  have ra: "outlier example_row_A = classify (rate_per_1000 example_row_A) (ucl998 example_row_A) (lcl998 example_row_A) \<and> flt (rate_per_1000 example_row_A) (lcl998 example_row_A)"
    using rows [OF ma] a by blast
  have rb: "fgt (rate_per_1000 example_row_B) (ucl998 example_row_B)"
    using rows [OF mb] b by blast
  have rc: "outlier sample_row_C = ''''"
    using rows [OF mc] c by blast
  from required_sample sample_run codes a b c ra rb rc show ?thesis by blast
qed

text \<open>
  Claim C4, as amended. In every row the mean rate is the arithmetic mean of the defined
  rates of the table (\<open>spec_mean\<close> leaves the undefined ones out and divides by the number
  of the defined ones). Appending observations of a new practice whose retained list
  sizes sum to 0 leaves that mean unchanged, provided that the sums of items and of list
  sizes of every practice already present lie in the range of \<^verbatim>\<open>int64\<close>.
\<close>

theorem mean_exclusion:
  assumes cols: "has_required_columns df"
    and new: "\<forall>r \<in> set extra. practice_code r = Some k"
    and fresh: "\<forall>r \<in> set (df_rows df). practice_code r \<noteq> Some k"
    and zero: "sum_list (map spec_denominator (spec_retained extra k)) = 0"
  shows "\<exists>t t'. compute_metrics df = Inr t \<and>
     compute_metrics (df\<lparr>df_rows := df_rows df @ extra\<rparr>) = Inr t' \<and>
     (\<forall>r \<in> set (tbl_rows t). mean_rate r = spec_mean (map rate_per_1000 (tbl_rows t))) \<and>
     (\<forall>r \<in> set (tbl_rows t'). mean_rate r = spec_mean (map rate_per_1000 (tbl_rows t'))) \<and>
     ((\<forall>k'. in_int64 (spec_total_numerator (df_rows df) k') \<and>
            in_int64 (spec_total_denominator (df_rows df) k')) \<longrightarrow>
      spec_mean (map rate_per_1000 (tbl_rows t')) = spec_mean (map rate_per_1000 (tbl_rows t)))"
proof -
  let ?df' = "df\<lparr>df_rows := df_rows df @ extra\<rparr>"
  let ?mean = "overall_mean_rate (aggregate (df_rows df))"
  let ?mean' = "overall_mean_rate (aggregate (df_rows df @ extra))"
  from compute_metrics_rows [OF cols] obtain cols1 where
    t: "compute_metrics df =
          Inr \<lparr>tbl_columns = cols1,
               tbl_rows = map (metrics_of ?mean) (aggregate (df_rows df))\<rparr>"
    by blast
  have "has_required_columns ?df'" using cols by simp
  from compute_metrics_rows [OF this] obtain cols2 where
    t': "compute_metrics ?df' =
          Inr \<lparr>tbl_columns = cols2,
               tbl_rows = map (metrics_of ?mean') (aggregate (df_rows df @ extra))\<rparr>"
    by auto
  let ?T = "\<lparr>tbl_columns = cols1,
             tbl_rows = map (metrics_of ?mean) (aggregate (df_rows df))\<rparr>"
  let ?T' = "\<lparr>tbl_columns = cols2,
             tbl_rows = map (metrics_of ?mean') (aggregate (df_rows df @ extra))\<rparr>"
  have m: "spec_mean (map rate_per_1000 (tbl_rows ?T)) = ?mean"
    by (simp add: rates_of_metrics overall_mean_rate_def mean_skipna_spec del: map_map)
  have m': "spec_mean (map rate_per_1000 (tbl_rows ?T')) = ?mean'"
    by (simp add: rates_of_metrics overall_mean_rate_def mean_skipna_spec del: map_map)
  have same: "?mean' = ?mean"
    if "\<forall>k'. in_int64 (spec_total_numerator (df_rows df) k') \<and>
             in_int64 (spec_total_denominator (df_rows df) k')"
    using overall_mean_rate_append_new [OF new fresh zero] that
    by (simp add: spec_total_numerator_def spec_total_denominator_def)
  have r: "\<forall>r \<in> set (tbl_rows ?T). mean_rate r = spec_mean (map rate_per_1000 (tbl_rows ?T))"
    unfolding m by (auto simp: metrics_of_fields)
  have r': "\<forall>r \<in> set (tbl_rows ?T'). mean_rate r = spec_mean (map rate_per_1000 (tbl_rows ?T'))"
    unfolding m' by (auto simp: metrics_of_fields)
  have eq: "(\<forall>k'. in_int64 (spec_total_numerator (df_rows df) k') \<and>
            in_int64 (spec_total_denominator (df_rows df) k')) \<longrightarrow>
      spec_mean (map rate_per_1000 (tbl_rows ?T')) =
      spec_mean (map rate_per_1000 (tbl_rows ?T))"
    unfolding m m' using same by blast
  from t t' r r' eq show ?thesis
    by (intro exI [of _ ?T] exI [of _ ?T'] conjI)
qed

text \<open>
  C4 as amended for the example frame, whose sums are in range, and the three extra
  observations of practice C: the mean rate is the same with and without them.
\<close>

theorem mean_exclusion_witness:
  "compute_metrics example_df = Inr example_table \<and>
   compute_metrics sample_df = Inr sample_table \<and>
   sample_df = example_df\<lparr>df_rows := df_rows example_df @ extra_rows\<rparr> \<and>
   mean_rate example_row_A = spec_mean (map rate_per_1000 (tbl_rows example_table)) \<and>
   mean_rate sample_row_C = spec_mean (map rate_per_1000 (tbl_rows sample_table)) \<and>
   spec_mean (map rate_per_1000 (tbl_rows sample_table)) =
   spec_mean (map rate_per_1000 (tbl_rows example_table))"
proof -
  have new: "\<forall>r \<in> set extra_rows. practice_code r = Some ''C''"
    by (simp add: extra_rows_def)
  have fresh: "\<forall>r \<in> set (df_rows example_df). practice_code r \<noteq> Some ''C''"
    by (simp add: example_df_def)
  have zero: "sum_list (map spec_denominator (spec_retained extra_rows ''C'')) = 0"
    by (simp add: extra_rows_def spec_retained_def spec_denominator_def)
  have run': "compute_metrics (example_df\<lparr>df_rows := df_rows example_df @ extra_rows\<rparr>) =
      Inr sample_table"
    using sample_run by (simp add: sample_df_def)
  from mean_exclusion [OF required_example new fresh zero] obtain t t' where
    t: "compute_metrics example_df = Inr t"
    and t': "compute_metrics (example_df\<lparr>df_rows := df_rows example_df @ extra_rows\<rparr>) = Inr t'"
    and r: "\<forall>r \<in> set (tbl_rows t). mean_rate r = spec_mean (map rate_per_1000 (tbl_rows t))"
    and r': "\<forall>r \<in> set (tbl_rows t'). mean_rate r = spec_mean (map rate_per_1000 (tbl_rows t'))"
    and eq: "(\<forall>k'. in_int64 (spec_total_numerator (df_rows example_df) k') \<and>
            in_int64 (spec_total_denominator (df_rows example_df) k')) \<longrightarrow>
      spec_mean (map rate_per_1000 (tbl_rows t')) = spec_mean (map rate_per_1000 (tbl_rows t))"
    by blast
  have fits: "\<forall>k'. in_int64 (spec_total_numerator (df_rows example_df) k') \<and>
            in_int64 (spec_total_denominator (df_rows example_df) k')"
    by (simp add: in_int64_def spec_total_numerator_def spec_total_denominator_def
        spec_retained_def spec_numerator_def spec_denominator_def example_df_def)
  note eq = eq [THEN mp, OF fits]
  from t example_run have T: "t = example_table" by simp
  from t' run' have T': "t' = sample_table" by simp
  have ma: "example_row_A \<in> set (tbl_rows example_table)"
    and mc: "sample_row_C \<in> set (tbl_rows sample_table)"
    by (simp_all add: example_table_def sample_rows)
  from r ma have a: "mean_rate example_row_A = spec_mean (map rate_per_1000 (tbl_rows example_table))"
    unfolding T by blast
  from r' mc have c: "mean_rate sample_row_C = spec_mean (map rate_per_1000 (tbl_rows sample_table))"
    unfolding T' by blast
  have d: "sample_df = example_df\<lparr>df_rows := df_rows example_df @ extra_rows\<rparr>"
    by (simp add: sample_df_def)
  from example_run sample_run d a c eq [unfolded T T'] show ?thesis by blast
qed

text \<open>
  C4 as stated fails where an existing integer sum overflows and the appended
  observation makes the integer column a float column. In \<open>wrap_df\<close> the list sizes of
  practice P, \<open>2 ^ 62\<close> twice, wrap around to \<open>- (2 ^ 63)\<close>, so P has no rate and the mean
  rate is that of Q, 10. With the observation of the new practice C, whose list size is
  missing and counts 0, the \<^verbatim>\<open>list_size\<close> column is a float column, the total of P is
  \<open>2 ^ 63\<close>, P has a (tiny) rate, and the mean rate is about 5.
\<close>

theorem mean_exclusion_counterexample:
  "compute_metrics wrap_df =
     Inr \<lparr>tbl_columns = grouped_columns,
          tbl_rows = map (metrics_of (Fin 10))
            [\<lparr>code = ''P'', total_items = 2, total_list_size = - 9223372036854775808\<rparr>,
             \<lparr>code = ''Q'', total_items = 10, total_list_size = 1000\<rparr>]\<rparr> \<and>
   compute_metrics (wrap_df\<lparr>df_rows := df_rows wrap_df @ appended_rows\<rparr>) =
     Inr \<lparr>tbl_columns = grouped_columns,
          tbl_rows = map (metrics_of (Fin ((2 / 9223372036854775808 * 1000 + 10) / 2)))
            [\<lparr>code = ''C'', total_items = 5, total_list_size = 0\<rparr>,
             \<lparr>code = ''P'', total_items = 2, total_list_size = 9223372036854775808\<rparr>,
             \<lparr>code = ''Q'', total_items = 10, total_list_size = 1000\<rparr>]\<rparr> \<and>
   map practice_code (df_rows wrap_df) = [Some ''P'', Some ''P'', Some ''Q''] \<and>
   map practice_code appended_rows = [Some ''C''] \<and>
   map spec_denominator (df_rows wrap_df @ appended_rows) =
     [4611686018427387904, 4611686018427387904, 1000, 0] \<and>
   mean_rate (metrics_of (Fin 10)
     \<lparr>code = ''Q'', total_items = 10, total_list_size = 1000\<rparr>) = Fin 10 \<and>
   mean_rate (metrics_of (Fin ((2 / 9223372036854775808 * 1000 + 10) / 2))
     \<lparr>code = ''Q'', total_items = 10, total_list_size = 1000\<rparr>) =
     Fin ((2 / 9223372036854775808 * 1000 + 10) / 2) \<and>
   Fin ((2 / 9223372036854775808 * 1000 + 10) / 2) \<noteq> Fin 10"
proof -
  have n1: "\<not> df_empty wrap_df"
    and n2: "\<not> df_empty (wrap_df\<lparr>df_rows := df_rows wrap_df @ appended_rows\<rparr>)"
    by (simp_all add: df_empty_def wrap_df_def)
  have sel: "df_rows (wrap_df\<lparr>df_rows := df_rows wrap_df @ appended_rows\<rparr>) =
      df_rows wrap_df @ appended_rows"
    by simp
  have r2: "has_required_columns (wrap_df\<lparr>df_rows := df_rows wrap_df @ appended_rows\<rparr>)"
    using required_wrap by simp
  have run1: "compute_metrics wrap_df =
     Inr \<lparr>tbl_columns = grouped_columns,
          tbl_rows = map (metrics_of (Fin 10))
            [\<lparr>code = ''P'', total_items = 2, total_list_size = - 9223372036854775808\<rparr>,
             \<lparr>code = ''Q'', total_items = 10, total_list_size = 1000\<rparr>]\<rparr>"
    using compute_metrics_nonempty [OF n1 required_wrap]
    by (simp only: aggregate_wrap mean_wrap)
  have run2: "compute_metrics (wrap_df\<lparr>df_rows := df_rows wrap_df @ appended_rows\<rparr>) =
     Inr \<lparr>tbl_columns = grouped_columns,
          tbl_rows = map (metrics_of (Fin ((2 / 9223372036854775808 * 1000 + 10) / 2)))
            [\<lparr>code = ''C'', total_items = 5, total_list_size = 0\<rparr>,
             \<lparr>code = ''P'', total_items = 2, total_list_size = 9223372036854775808\<rparr>,
             \<lparr>code = ''Q'', total_items = 10, total_list_size = 1000\<rparr>]\<rparr>"
    using compute_metrics_nonempty [OF n2 r2]
    by (simp only: sel aggregate_wrap_appended mean_wrap_appended)
  have codes: "map practice_code (df_rows wrap_df) = [Some ''P'', Some ''P'', Some ''Q'']"
    "map practice_code appended_rows = [Some ''C'']"
    by (simp_all add: wrap_df_def appended_rows_def)
  have dens: "map spec_denominator (df_rows wrap_df @ appended_rows) =
     [4611686018427387904, 4611686018427387904, 1000, 0]"
    by (simp add: wrap_df_def appended_rows_def spec_denominator_def)
  have means: "mean_rate (metrics_of (Fin 10)
       \<lparr>code = ''Q'', total_items = 10, total_list_size = 1000\<rparr>) = Fin 10"
    "mean_rate (metrics_of (Fin ((2 / 9223372036854775808 * 1000 + 10) / 2))
       \<lparr>code = ''Q'', total_items = 10, total_list_size = 1000\<rparr>) =
     Fin ((2 / 9223372036854775808 * 1000 + 10) / 2)"
    by (simp_all only: metrics_of_fields)
  have diff: "Fin ((2 / 9223372036854775808 * 1000 + 10) / 2) \<noteq> Fin 10"
    by simp
  from run1 run2 codes dens means diff show ?thesis by blast
qed




text \<open>
  Claim C6. On every frame whose totals are A: 10 items and list size 1000, B: 100 items
  and list size 1000, the run gives the rates 10 and 100, the mean rate 55, the standard
  error \<open>sqrt 55\<close> (about 7.416) for both, the 99.8% limits \<open>55 \<plusminus> 3.09 * sqrt 55\<close> (about
  77.9 and 32.1), and flags B high and A low.
\<close>

theorem end_to_end_example:
  assumes cols: "has_required_columns df"
    and totals: "aggregate (df_rows df) =
      [\<lparr>code = ''A'', total_items = 10, total_list_size = 1000\<rparr>,
       \<lparr>code = ''B'', total_items = 100, total_list_size = 1000\<rparr>]"
  shows "compute_metrics df =
           Inr \<lparr>tbl_columns = grouped_columns, tbl_rows = [example_row_A, example_row_B]\<rparr> \<and>
     rate_per_1000 example_row_A = Fin 10 \<and> rate_per_1000 example_row_B = Fin 100 \<and>
     mean_rate example_row_A = Fin 55 \<and> mean_rate example_row_B = Fin 55 \<and>
     spec_se 55 (total_list_size example_row_A / 1000) = Fin (sqrt 55) \<and>
     spec_se 55 (total_list_size example_row_B / 1000) = Fin (sqrt 55) \<and>
     \<bar>sqrt 55 - 7416 / 1000\<bar> < 1 / 1000 \<and>
     ucl998 example_row_A = Fin (55 + 309 / 100 * sqrt 55) \<and>
     ucl998 example_row_B = Fin (55 + 309 / 100 * sqrt 55) \<and>
     lcl998 example_row_A = Fin (55 - 309 / 100 * sqrt 55) \<and>
     lcl998 example_row_B = Fin (55 - 309 / 100 * sqrt 55) \<and>
     \<bar>55 + 309 / 100 * sqrt 55 - 779 / 10\<bar> < 5 / 100 \<and>
     \<bar>55 - 309 / 100 * sqrt 55 - 321 / 10\<bar> < 5 / 100 \<and>
     outlier example_row_B = ''high'' \<and> outlier example_row_A = ''low''"
proof -
  have "df_rows df \<noteq> []"
    using totals by (auto simp: aggregate_Nil)
  with cols have "\<not> df_empty df"
    by (auto simp: df_empty_def has_required_columns_def)
  from compute_metrics_nonempty [OF this cols] have run: "compute_metrics df =
      Inr \<lparr>tbl_columns = grouped_columns, tbl_rows = [example_row_A, example_row_B]\<rparr>"
    by (simp add: totals mean_example metrics_of_A metrics_of_B)
  have fields: "rate_per_1000 example_row_A = Fin 10" "rate_per_1000 example_row_B = Fin 100"
    "mean_rate example_row_A = Fin 55" "mean_rate example_row_B = Fin 55"
    "ucl998 example_row_A = Fin (55 + 309 / 100 * sqrt 55)"
    "ucl998 example_row_B = Fin (55 + 309 / 100 * sqrt 55)"
    "lcl998 example_row_A = Fin (55 - 309 / 100 * sqrt 55)"
    "lcl998 example_row_B = Fin (55 - 309 / 100 * sqrt 55)"
    "outlier example_row_B = ''high''" "outlier example_row_A = ''low''"
    by (simp_all add: example_row_A_def example_row_B_def)
  have se: "spec_se 55 (total_list_size example_row_A / 1000) = Fin (sqrt 55)"
    "spec_se 55 (total_list_size example_row_B / 1000) = Fin (sqrt 55)"
    by (simp_all add: spec_se_def example_row_A_def example_row_B_def)
  have approx: "\<bar>sqrt 55 - 7416 / 1000\<bar> < 1 / 1000"
    "\<bar>55 + 309 / 100 * sqrt 55 - 779 / 10\<bar> < 5 / 100"
    "\<bar>55 - 309 / 100 * sqrt 55 - 321 / 10\<bar> < 5 / 100"
    using sqrt55_bounds by linarith+
  from run fields se approx show ?thesis by simp
qed

text \<open>
  C6 on the example frame, where the observations of A are spread over two months.
\<close>

theorem end_to_end_example_witness:
  "has_required_columns example_df \<and>
   aggregate (df_rows example_df) =
      [\<lparr>code = ''A'', total_items = 10, total_list_size = 1000\<rparr>,
       \<lparr>code = ''B'', total_items = 100, total_list_size = 1000\<rparr>] \<and>
   compute_metrics example_df =
      Inr \<lparr>tbl_columns = grouped_columns, tbl_rows = [example_row_A, example_row_B]\<rparr> \<and>
   outlier example_row_B = ''high'' \<and> outlier example_row_A = ''low''"
  using end_to_end_example [OF required_example aggregate_example]
    required_example aggregate_example by blast

text \<open>
  Claim C7, as amended. For two rows of one run with positive totals and equal ratio
  of \<open>total_items\<close> to \<open>total_list_size\<close>, and a non-negative mean rate \<open>m\<close>: when
  \<open>m > 0\<close> the row with the larger total has the strictly narrower band (upper minus
  lower limit) at both confidence levels; when \<open>m = 0\<close> all bands have width 0.
\<close>

theorem band_monotonicity:
  assumes run: "compute_metrics df = Inr t"
    and r1: "r1 \<in> set (tbl_rows t)" and r2: "r2 \<in> set (tbl_rows t)"
    and pos: "0 < total_list_size r1"
    and larger: "total_list_size r1 < total_list_size r2"
    and ratio: "total_items r1 / total_list_size r1 = total_items r2 / total_list_size r2"
    and mean: "mean_rate r1 = Fin m" and nonneg: "0 \<le> m"
  shows "(0 < m \<longrightarrow>
            flt (fsub (ucl95 r2) (lcl95 r2)) (fsub (ucl95 r1) (lcl95 r1)) \<and>
            flt (fsub (ucl998 r2) (lcl998 r2)) (fsub (ucl998 r1) (lcl998 r1))) \<and>
         (m = 0 \<longrightarrow>
            fsub (ucl95 r1) (lcl95 r1) = Fin 0 \<and> fsub (ucl95 r2) (lcl95 r2) = Fin 0 \<and>
            fsub (ucl998 r1) (lcl998 r1) = Fin 0 \<and> fsub (ucl998 r2) (lcl998 r2) = Fin 0)"
proof -
  let ?mean = "overall_mean_rate (aggregate (df_rows df))"
  from compute_metrics_row_cases [OF run r1] obtain g1 where
    g1: "r1 = metrics_of ?mean g1" by blast
  from compute_metrics_row_cases [OF run r2] obtain g2 where
    g2: "r2 = metrics_of ?mean g2" by blast
  from mean have m: "?mean = Fin m" by (simp add: g1 metrics_of_fields)
  let ?s1 = "total_list_size g1 / 1000" and ?s2 = "total_list_size g2 / 1000"
  from pos larger have s: "0 < ?s1" "?s1 < ?s2" "0 < ?s2"
    by (simp_all add: g1 g2 metrics_of_fields)
  have w1: "fsub (fst (limits ?mean ?s1 z)) (snd (limits ?mean ?s1 z)) =
      Fin (2 * z * sqrt (m / ?s1))" for z
    unfolding m using s nonneg by (simp add: limits_nonneg)
  have w2: "fsub (fst (limits ?mean ?s2 z)) (snd (limits ?mean ?s2 z)) =
      Fin (2 * z * sqrt (m / ?s2))" for z
    unfolding m using s nonneg by (simp add: limits_nonneg)
  have strict: "0 < m \<Longrightarrow> 0 < z \<Longrightarrow> 2 * z * sqrt (m / ?s2) < 2 * z * sqrt (m / ?s1)" for z
  proof -
    assume "0 < m" "0 < z"
    from s \<open>0 < m\<close> have "m / ?s2 < m / ?s1"
      by (intro divide_strict_left_mono) simp_all
    then have "sqrt (m / ?s2) < sqrt (m / ?s1)" by simp
    with \<open>0 < z\<close> show ?thesis by simp
  qed
  show ?thesis
    unfolding g1 g2 metrics_of_fields w1 w2
    using strict [of "196 / 100"] strict [of "309 / 100"] by auto
qed

text \<open>
  C7 as amended on a frame with the totals 10/1000 and 20/2000 and the mean rate 10.
\<close>

theorem band_monotonicity_witness:
  "compute_metrics funnel_df =
     Inr \<lparr>tbl_columns = grouped_columns, tbl_rows = [funnel_small, funnel_large]\<rparr> \<and>
   total_list_size funnel_small < total_list_size funnel_large \<and>
   total_items funnel_small / total_list_size funnel_small =
     total_items funnel_large / total_list_size funnel_large \<and>
   mean_rate funnel_small = Fin 10 \<and>
   flt (fsub (ucl95 funnel_large) (lcl95 funnel_large))
       (fsub (ucl95 funnel_small) (lcl95 funnel_small)) \<and>
   flt (fsub (ucl998 funnel_large) (lcl998 funnel_large))
       (fsub (ucl998 funnel_small) (lcl998 funnel_small))"
proof -
  have r1: "funnel_small \<in>
      set (tbl_rows \<lparr>tbl_columns = grouped_columns, tbl_rows = [funnel_small, funnel_large]\<rparr>)"
    and r2: "funnel_large \<in>
      set (tbl_rows \<lparr>tbl_columns = grouped_columns, tbl_rows = [funnel_small, funnel_large]\<rparr>)"
    by simp_all
  have pos: "0 < total_list_size funnel_small"
    and larger: "total_list_size funnel_small < total_list_size funnel_large"
    and ratio: "total_items funnel_small / total_list_size funnel_small =
      total_items funnel_large / total_list_size funnel_large"
    and mean: "mean_rate funnel_small = Fin 10"
    by (simp_all add: funnel_small_def funnel_large_def)
  have m: "(0::real) \<le> 10" "(0::real) < 10" by simp_all
  from band_monotonicity [OF funnel_run r1 r2 pos larger ratio mean m(1)] m(2)
  have "flt (fsub (ucl95 funnel_large) (lcl95 funnel_large))
            (fsub (ucl95 funnel_small) (lcl95 funnel_small)) \<and>
        flt (fsub (ucl998 funnel_large) (lcl998 funnel_large))
            (fsub (ucl998 funnel_small) (lcl998 funnel_small))"
    by blast
  with funnel_run larger ratio mean show ?thesis by blast
qed

text \<open>
  C7 as stated fails where no practice prescribed anything: the totals 0/1000 and 0/2000
  have equal ratio and different denominators, the mean rate is 0, and both bands have
  width 0 at both levels, so the band of the larger practice is not strictly narrower.
\<close>

theorem band_strictness_counterexample:
  "compute_metrics zero_df =
     Inr \<lparr>tbl_columns = grouped_columns, tbl_rows = [zero_small, zero_large]\<rparr> \<and>
   total_items zero_small / total_list_size zero_small =
     total_items zero_large / total_list_size zero_large \<and>
   total_list_size zero_small < total_list_size zero_large \<and>
   \<not> flt (fsub (ucl95 zero_large) (lcl95 zero_large)) (fsub (ucl95 zero_small) (lcl95 zero_small)) \<and>
   \<not> flt (fsub (ucl998 zero_large) (lcl998 zero_large))
         (fsub (ucl998 zero_small) (lcl998 zero_small))"
  using zero_run by (simp add: zero_small_def zero_large_def)

text \<open>
  Claim C8. On a frame with rows and the required columns the run returns a table with
  the ten columns and one row per practice with a present \<open>items\<close> cell; when every
  \<open>total_list_size\<close> is 0, every row has an undefined mean rate, rate and limits and no
  outlier flag.
\<close>

theorem degenerate_aggregate:
  assumes cols: "has_required_columns df" and nonempty: "df_rows df \<noteq> []"
  shows "\<exists>t. compute_metrics df = Inr t \<and>
     tbl_columns t = grouped_columns \<and>
     distinct (map code (tbl_rows t)) \<and>
     set (map code (tbl_rows t)) =
       {k. \<exists>r \<in> set (df_rows df). practice_code r = Some k \<and> items r \<noteq> Missing} \<and>
     ((\<forall>r \<in> set (tbl_rows t). total_list_size r = 0) \<longrightarrow>
      (\<forall>r \<in> set (tbl_rows t).
         mean_rate r = NaN \<and> rate_per_1000 r = NaN \<and>
         ucl95 r = NaN \<and> lcl95 r = NaN \<and> ucl998 r = NaN \<and> lcl998 r = NaN \<and>
         outlier r = ''''))"
proof -
  let ?gs = "aggregate (df_rows df)"
  let ?mean = "overall_mean_rate ?gs"
  let ?T = "\<lparr>tbl_columns = grouped_columns, tbl_rows = map (metrics_of ?mean) ?gs\<rparr>"
  from cols nonempty have "\<not> df_empty df"
    by (auto simp: df_empty_def has_required_columns_def)
  then have t: "compute_metrics df = Inr ?T"
    using cols by (rule compute_metrics_nonempty)
  have codes: "map code (tbl_rows ?T) = group_keys (dropna_items (df_rows df))"
    by (simp add: comp_def metrics_of_fields code_aggregate [symmetric])
  have d: "distinct (map code (tbl_rows ?T))"
    unfolding codes by (simp add: sorted_distinct_group_keys)
  have k: "set (map code (tbl_rows ?T)) =
       {k. \<exists>r \<in> set (df_rows df). practice_code r = Some k \<and> items r \<noteq> Missing}"
    unfolding codes set_group_keys by (auto simp: dropna_items_def)
  have all_nan: "(\<forall>r \<in> set (tbl_rows ?T). total_list_size r = 0) \<longrightarrow>
      (\<forall>r \<in> set (tbl_rows ?T).
         mean_rate r = NaN \<and> rate_per_1000 r = NaN \<and>
         ucl95 r = NaN \<and> lcl95 r = NaN \<and> ucl998 r = NaN \<and> lcl998 r = NaN \<and>
         outlier r = '''')"
  proof (intro impI ballI)
    fix r
    assume zero: "\<forall>r \<in> set (tbl_rows ?T). total_list_size r = 0"
      and "r \<in> set (tbl_rows ?T)"
    then obtain g where g: "g \<in> set ?gs" and r: "r = metrics_of ?mean g" by auto
    from zero have z: "\<forall>g \<in> set ?gs. total_list_size g = 0"
      by (simp add: metrics_of_fields)
    then have "\<forall>x \<in> set (map rate_of ?gs). x = NaN"
      by (simp add: rate_of_def)
    then have mean: "?mean = NaN"
      by (simp add: overall_mean_rate_def mean_skipna_def defined_values_all_nan)
    from z g have tls: "total_list_size g = 0" by blast
    show "mean_rate r = NaN \<and> rate_per_1000 r = NaN \<and>
         ucl95 r = NaN \<and> lcl95 r = NaN \<and> ucl998 r = NaN \<and> lcl998 r = NaN \<and>
         outlier r = ''''"
      unfolding r metrics_of_fields mean
      by (simp add: tls rate_of_def limits_undefined classify_def)
  qed
  from t d k all_nan show ?thesis
    by (intro exI [of _ ?T] conjI) simp_all
qed

text \<open>
  C8 on a frame with two practices, one with the list size 0 and one with a missing list
  size.
\<close>

theorem degenerate_aggregate_witness:
  "has_required_columns undefined_df \<and>
   compute_metrics undefined_df =
     Inr \<lparr>tbl_columns = grouped_columns, tbl_rows = [undefined_row_X, undefined_row_Y]\<rparr> \<and>
   total_list_size undefined_row_X = 0 \<and> total_list_size undefined_row_Y = 0 \<and>
   mean_rate undefined_row_X = NaN \<and> rate_per_1000 undefined_row_X = NaN \<and>
   ucl95 undefined_row_X = NaN \<and> lcl95 undefined_row_X = NaN \<and>
   ucl998 undefined_row_X = NaN \<and> lcl998 undefined_row_X = NaN \<and>
   outlier undefined_row_X = '''' \<and>
   mean_rate undefined_row_Y = NaN \<and> rate_per_1000 undefined_row_Y = NaN \<and>
   ucl95 undefined_row_Y = NaN \<and> lcl95 undefined_row_Y = NaN \<and>
   ucl998 undefined_row_Y = NaN \<and> lcl998 undefined_row_Y = NaN \<and>
   outlier undefined_row_Y = ''''"
proof -
  have nonempty: "df_rows undefined_df \<noteq> []" by (simp add: undefined_df_def)
  note q = run_result [OF degenerate_aggregate [OF required_undefined nonempty] undefined_run]
  have zx: "total_list_size undefined_row_X = 0" and zy: "total_list_size undefined_row_Y = 0"
    by (simp_all add: undefined_row_X_def undefined_row_Y_def)
  then have zero: "\<forall>r \<in> set (tbl_rows
      \<lparr>tbl_columns = grouped_columns, tbl_rows = [undefined_row_X, undefined_row_Y]\<rparr>).
      total_list_size r = 0"
    by simp
  note rows = q [THEN conjunct2, THEN conjunct2, THEN conjunct2, THEN mp, OF zero, rule_format]
  have mx: "undefined_row_X \<in> set (tbl_rows
      \<lparr>tbl_columns = grouped_columns, tbl_rows = [undefined_row_X, undefined_row_Y]\<rparr>)"
    and my: "undefined_row_Y \<in> set (tbl_rows
      \<lparr>tbl_columns = grouped_columns, tbl_rows = [undefined_row_X, undefined_row_Y]\<rparr>)"
    by simp_all
  from required_undefined undefined_run zx zy rows [OF mx] rows [OF my]
  show ?thesis by blast
qed

text \<open>
  Claim C9. An empty frame gives a table with no rows and the ten declared columns, not
  an error; the column set is that of a non-empty run.
\<close>

theorem empty_input:
  assumes "df_empty df"
  shows "compute_metrics df = Inr \<lparr>tbl_columns = empty_columns, tbl_rows = []\<rparr> \<and>
     distinct empty_columns \<and> length empty_columns = 10 \<and>
     set empty_columns =
       {''practice_code'', ''total_items'', ''total_list_size'', ''rate_per_1000'',
        ''mean_rate'', ''ucl95'', ''lcl95'', ''ucl998'', ''lcl998'', ''outlier''} \<and>
     set empty_columns = set grouped_columns"
proof -
  from assms have "compute_metrics df = Inr \<lparr>tbl_columns = empty_columns, tbl_rows = []\<rparr>"
    by (rule compute_metrics_empty)
  moreover have "distinct empty_columns" "length empty_columns = 10"
    by (simp_all add: empty_columns_def)
  moreover have "set empty_columns =
       {''practice_code'', ''total_items'', ''total_list_size'', ''rate_per_1000'',
        ''mean_rate'', ''ucl95'', ''lcl95'', ''ucl998'', ''lcl998'', ''outlier''}"
    by (auto simp: empty_columns_def)
  moreover have "set empty_columns = set grouped_columns"
    by (auto simp: empty_columns_def grouped_columns_eq)
  ultimately show ?thesis by blast
qed

text \<open>
  C9 on a frame with the four input columns and no rows.
\<close>

theorem empty_input_witness:
  "df_empty header_only_df \<and>
   compute_metrics header_only_df = Inr \<lparr>tbl_columns = empty_columns, tbl_rows = []\<rparr>"
proof -
  have e: "df_empty header_only_df"
    by (simp add: df_empty_def header_only_df_def)
  from empty_input [OF e] e show ?thesis by blast
qed

text \<open>
  Claim C10. For an empty frame the limit columns come in the order \<open>ucl95\<close>,
  \<open>ucl998\<close>, \<open>lcl95\<close>, \<open>lcl998\<close>; for a non-empty frame every table that the run returns
  has them in the order \<open>ucl95\<close>, \<open>lcl95\<close>, \<open>ucl998\<close>, \<open>lcl998\<close>, and the run returns a
  table when the required columns are present. The two column lists have the same
  elements and differ as sequences.
\<close>

theorem column_order:
  "(df_empty df \<longrightarrow>
      (\<exists>t. compute_metrics df = Inr t \<and>
           tbl_columns t =
             [''practice_code'', ''total_items'', ''total_list_size'', ''rate_per_1000'',
              ''mean_rate'', ''ucl95'', ''ucl998'', ''lcl95'', ''lcl998'', ''outlier''])) \<and>
   (\<not> df_empty df \<longrightarrow>
      (\<forall>t. compute_metrics df = Inr t \<longrightarrow>
           tbl_columns t =
             [''practice_code'', ''total_items'', ''total_list_size'', ''rate_per_1000'',
              ''mean_rate'', ''ucl95'', ''lcl95'', ''ucl998'', ''lcl998'', ''outlier''])) \<and>
   (\<not> df_empty df \<and> has_required_columns df \<longrightarrow> (\<exists>t. compute_metrics df = Inr t)) \<and>
   set empty_columns = set grouped_columns \<and> empty_columns \<noteq> grouped_columns"
proof -
  have e: "df_empty df \<Longrightarrow> \<exists>t. compute_metrics df = Inr t \<and>
           tbl_columns t =
             [''practice_code'', ''total_items'', ''total_list_size'', ''rate_per_1000'',
              ''mean_rate'', ''ucl95'', ''ucl998'', ''lcl95'', ''lcl998'', ''outlier'']"
    by (simp add: compute_metrics_empty empty_columns_def)
  have n: "\<not> df_empty df \<Longrightarrow> \<forall>t. compute_metrics df = Inr t \<longrightarrow>
           tbl_columns t =
             [''practice_code'', ''total_items'', ''total_list_size'', ''rate_per_1000'',
              ''mean_rate'', ''ucl95'', ''lcl95'', ''ucl998'', ''lcl998'', ''outlier'']"
    by (auto simp: compute_metrics_def Let_def grouped_columns_eq split: if_splits)
  have r: "\<not> df_empty df \<and> has_required_columns df \<Longrightarrow> \<exists>t. compute_metrics df = Inr t"
    by (simp add: compute_metrics_nonempty)
  have s: "set empty_columns = set grouped_columns"
    by (auto simp: empty_columns_def grouped_columns_eq)
  have d: "empty_columns \<noteq> grouped_columns"
    by (simp add: empty_columns_def grouped_columns_eq)
  from e n r s d show ?thesis by blast
qed

text \<open>
  C10 on the frame without rows and on the sample frame.
\<close>

theorem column_order_witness:
  "df_empty header_only_df \<and>
   compute_metrics header_only_df =
     Inr \<lparr>tbl_columns =
            [''practice_code'', ''total_items'', ''total_list_size'', ''rate_per_1000'',
             ''mean_rate'', ''ucl95'', ''ucl998'', ''lcl95'', ''lcl998'', ''outlier''],
          tbl_rows = []\<rparr> \<and>
   has_required_columns sample_df \<and> compute_metrics sample_df = Inr sample_table \<and>
   tbl_columns sample_table =
     [''practice_code'', ''total_items'', ''total_list_size'', ''rate_per_1000'',
      ''mean_rate'', ''ucl95'', ''lcl95'', ''ucl998'', ''lcl998'', ''outlier'']"
proof -
  have e: "df_empty header_only_df"
    by (simp add: df_empty_def header_only_df_def)
  have n: "\<not> df_empty sample_df"
    by (simp add: df_empty_def sample_df_def example_df_def)
  have run: "compute_metrics header_only_df = Inr \<lparr>tbl_columns = empty_columns, tbl_rows = []\<rparr>"
    using e by (rule compute_metrics_empty)
  from column_order [of header_only_df] e run
  have c1: "tbl_columns \<lparr>tbl_columns = empty_columns, tbl_rows = []\<rparr> =
            [''practice_code'', ''total_items'', ''total_list_size'', ''rate_per_1000'',
             ''mean_rate'', ''ucl95'', ''ucl998'', ''lcl95'', ''lcl998'', ''outlier'']"
    by auto
  from column_order [of sample_df] n sample_run
  have c2: "tbl_columns sample_table =
     [''practice_code'', ''total_items'', ''total_list_size'', ''rate_per_1000'',
      ''mean_rate'', ''ucl95'', ''lcl95'', ''ucl998'', ''lcl998'', ''outlier'']"
    by auto
  from c1 have "empty_columns = [''practice_code'', ''total_items'', ''total_list_size'', ''rate_per_1000'',
             ''mean_rate'', ''ucl95'', ''ucl998'', ''lcl95'', ''lcl998'', ''outlier'']" by simp
  with run e required_sample sample_run c2 show ?thesis by simp
qed

end
